theory Spec2Isabelle
  imports Complex_Main "HOL-Library.Multiset"
begin

section \<open>JavaScript strings\<close>

text \<open>
  A JavaScript string is a sequence of UTF-16 code units; \<open>length\<close>, \<open>slice\<close>,
  \<open>indexOf\<close> and \<open>repeat\<close> count code units.  The bullet used by the masking
  functions is the single code unit U+2022.
\<close>

type_synonym jsstring = "nat list"

definition lit :: "string \<Rightarrow> jsstring" where
  "lit s = map of_char s"

definition bullet :: nat where
  "bullet = 8226"

text \<open>A string is falsy exactly when it is empty.\<close>

definition truthy :: "jsstring \<Rightarrow> bool" where
  "truthy s = (s \<noteq> [])"

definition truthy_opt :: "jsstring option \<Rightarrow> bool" where
  "truthy_opt v = (case v of None \<Rightarrow> False | Some s \<Rightarrow> s \<noteq> [])"

text \<open>\<open>String(n)\<close> for a non-negative integer: its decimal digits.\<close>

function string_of_nat :: "nat \<Rightarrow> jsstring" where
  "string_of_nat n =
     (if n < 10 then [48 + n] else string_of_nat (n div 10) @ [48 + n mod 10])"
  by pat_completeness auto
termination
  by (relation "measure (\<lambda>n. n)") auto

declare string_of_nat.simps [simp del]

definition string_of_int :: "int \<Rightarrow> jsstring" where
  "string_of_int i = (if i < 0 then 45 # string_of_nat (nat (- i)) else string_of_nat (nat i))"

text \<open>\<open>s.padStart(n, '0')\<close>.\<close>

definition padStart0 :: "nat \<Rightarrow> jsstring \<Rightarrow> jsstring" where
  "padStart0 n s = replicate (n - length s) 48 @ s"

text \<open>\<open>s.startsWith(p)\<close> and \<open>s.includes(p)\<close>.\<close>

fun starts_with :: "jsstring \<Rightarrow> jsstring \<Rightarrow> bool" where
  "starts_with s [] = True"
| "starts_with [] (p # ps) = False"
| "starts_with (c # cs) (p # ps) = (c = p \<and> starts_with cs ps)"

fun js_includes :: "jsstring \<Rightarrow> jsstring \<Rightarrow> bool" where
  "js_includes [] p = (p = [])"
| "js_includes (c # cs) p = (starts_with (c # cs) p \<or> js_includes cs p)"

text \<open>\<open>s.indexOf(c)\<close> for a single code unit: the first index, or \<open>-1\<close>.\<close>

fun indexOf :: "jsstring \<Rightarrow> nat \<Rightarrow> int" where
  "indexOf [] c = -1"
| "indexOf (x # xs) c =
     (if x = c then 0 else (let i = indexOf xs c in if i < 0 then -1 else i + 1))"

text \<open>
  The code units \<open>\s\<close> matches and \<open>trim\<close> strips (white space and line terminators),
  and the ones \<open>\d\<close> matches.
\<close>

definition is_space :: "nat \<Rightarrow> bool" where
  "is_space c =
     (c \<in> {9, 10, 11, 12, 13, 32, 160, 5760, 8232, 8233, 8239, 8287, 12288, 65279} \<or>
      (8192 \<le> c \<and> c \<le> 8202))"

definition is_digit :: "nat \<Rightarrow> bool" where
  "is_digit c = (48 \<le> c \<and> c \<le> 57)"

definition trim :: "jsstring \<Rightarrow> jsstring" where
  "trim s = rev (dropWhile is_space (rev (dropWhile is_space s)))"

text \<open>
  Folding of the ASCII letters to lower case.  Under the \<open>i\<close> flag (without \<open>u\<close>) a
  pattern made of ASCII characters matches a code unit exactly when it matches its ASCII
  lower-case fold, since no code unit outside ASCII is canonicalized to an ASCII one.
\<close>

definition ascii_lower :: "jsstring \<Rightarrow> jsstring" where
  "ascii_lower s = map (\<lambda>c. if 65 \<le> c \<and> c \<le> 90 then c + 32 else c) s"

definition is_hex :: "nat \<Rightarrow> bool" where
  "is_hex c = (is_digit c \<or> (97 \<le> c \<and> c \<le> 102))"

text \<open>\<open>/\d{n,}/\<close>: somewhere a run of at least \<open>n\<close> digits.\<close>

fun has_digit_run :: "nat \<Rightarrow> jsstring \<Rightarrow> bool" where
  "has_digit_run n [] = (n = 0)"
| "has_digit_run n (c # cs) =
     (n \<le> length (takeWhile is_digit (c # cs)) \<or> has_digit_run n cs)"

text \<open>\<open>/-\d{n,}/\<close>: somewhere a hyphen followed by at least \<open>n\<close> digits.\<close>

fun has_dash_digit_run :: "nat \<Rightarrow> jsstring \<Rightarrow> bool" where
  "has_dash_digit_run n [] = False"
| "has_dash_digit_run n (c # cs) =
     ((c = 45 \<and> n \<le> length (takeWhile is_digit cs)) \<or> has_dash_digit_run n cs)"

text \<open>\<open>parts.join(sep)\<close>.\<close>

fun join :: "jsstring \<Rightarrow> jsstring list \<Rightarrow> jsstring" where
  "join sep [] = []"
| "join sep [x] = x"
| "join sep (x # y # ys) = x @ sep @ join sep (y # ys)"

text \<open>
  Built-ins of the JavaScript host that the repository calls but does not define.
  They are parameters of the model: \<open>String.prototype.toLowerCase\<close>, \<open>CSS.escape\<close>,
  whether \<open>new URL(s)\<close> succeeds, and whether \<open>new Date(s)\<close> is a valid date.
  The field \<open>cssEscape\<close> stands for the selector module's function \<open>cssEscape\<close>, which
  calls \<open>CSS.escape\<close> where the host has it and a replacement of its own otherwise.
\<close>

record host =
  toLowerCase :: "jsstring \<Rightarrow> jsstring"
  cssEscape :: "jsstring \<Rightarrow> jsstring"
  urlParses :: "jsstring \<Rightarrow> bool"
  dateParses :: "jsstring \<Rightarrow> bool"

section \<open>Data model: selector strategies, actions, recordings\<close>

record position_selector =
  pos_parent :: jsstring
  pos_index :: int

text \<open>
  A selector strategy is an object whose candidate properties are optional
  (\<open>None\<close>: the property is absent).
\<close>

record SelectorStrategy =
  sel_id :: "jsstring option"
  dataTestId :: "jsstring option"
  ariaLabel :: "jsstring option"
  sel_name :: "jsstring option"
  css :: "jsstring option"
  sel_text :: "jsstring option"
  textContains :: "jsstring option"
  xpath :: "jsstring option"
  xpathAbsolute :: "jsstring option"
  position :: "position_selector option"
  priority :: "jsstring list"

text \<open>
  The action types of the source are one discriminated union of object shapes;
  here one record carries the union of their properties, the properties a shape
  lacks being \<open>None\<close> (\<open>undefined\<close>).
\<close>

record action =
  act_id :: jsstring
  act_type :: jsstring
  timestamp :: int
  act_url :: jsstring
  selector :: "SelectorStrategy option"
  act_tagName :: "jsstring option"
  act_text :: "jsstring option"
  coordinates :: "(real \<times> real) option"
  coordinatesRelativeTo :: "jsstring option"
  button :: "jsstring option"
  clickCount :: "nat option"
  modifiers :: "jsstring list"
  act_value :: "jsstring option"
  inputType :: "jsstring option"
  isSensitive :: bool
  nav_from :: "jsstring option"
  nav_to :: "jsstring option"

record viewport_size =
  width :: real
  height :: real

record recording =
  rec_id :: jsstring
  version :: jsstring
  rec_testName :: jsstring
  rec_url :: jsstring
  rec_startTime :: jsstring
  endTime :: "jsstring option"
  viewport :: "viewport_size option"
  userAgent :: jsstring
  actions :: "action list option"

section \<open>DOM elements\<close>

text \<open>
  What the capture side reads of an element: its identity as an object (\<open>ref\<close>), the
  interface it implements (for \<open>instanceof\<close>; \<open>OtherElement\<close> is an element that is not an
  \<open>HTMLElement\<close>), its tag name, id, attributes, the \<open>name\<close>,
  \<open>type\<close> and \<open>href\<close> properties, its class list, text content and computed cursor,
  whether it is \<open>document.body\<close> or \<open>document.documentElement\<close>, and the object
  identities and tag names of its element children.  An element comes with its parent
  chain.
\<close>

datatype html_interface = HTMLInputElement | HTMLSelectElement | OtherHTMLElement | OtherElement

record node =
  ref :: nat
  iface :: html_interface
  tagName :: jsstring
  el_id :: jsstring
  attributes :: "(jsstring \<times> jsstring) list"
  el_name :: jsstring
  el_type :: jsstring
  href :: jsstring
  classList :: "jsstring list"
  textContent :: "jsstring option"
  cursor :: jsstring
  isBody :: bool
  isDocumentElement :: bool
  children :: "(nat \<times> jsstring) list"

datatype element = Element (node_of: node) (parentElement: "element option")

definition getAttribute :: "element \<Rightarrow> jsstring \<Rightarrow> jsstring option" where
  "getAttribute el name = map_of (attributes (node_of el)) name"

definition hasAttribute :: "element \<Rightarrow> jsstring \<Rightarrow> bool" where
  "hasAttribute el name = (getAttribute el name \<noteq> None)"

text \<open>\<open>xs.indexOf(el)\<close> by object identity, \<open>-1\<close> when absent.\<close>

fun index_of_ref :: "nat list \<Rightarrow> nat \<Rightarrow> int" where
  "index_of_ref [] r = -1"
| "index_of_ref (x # xs) r =
     (if x = r then 0 else (if index_of_ref xs r < 0 then -1 else index_of_ref xs r + 1))"

text \<open>\<open>Array.from(element.parentElement?.children || [])\<close>.\<close>

definition siblings_of :: "element \<Rightarrow> (nat \<times> jsstring) list" where
  "siblings_of el = (case parentElement el of None \<Rightarrow> [] | Some p \<Rightarrow> children (node_of p))"

section \<open>Selector strategy generator (content/selector-generator)\<close>

text \<open>
  The configuration type and its default are declared in a module of the repository that
  is not among the sources; the configuration is a parameter.
\<close>

record SelectorConfig =
  maxCssDepth :: int
  includeXPath :: bool
  includePosition :: bool

definition isDynamicId :: "jsstring \<Rightarrow> bool" where
  "isDynamicId ident =
     (list_ex (starts_with (ascii_lower ident))
        [lit ''react-'', lit ''vue-'', lit ''ng-'', lit ''ember-''] \<or>
      has_digit_run 6 ident \<or>
      has_dash_digit_run 13 ident \<or>
      8 \<le> length (takeWhile is_hex (ascii_lower ident)))"

definition isDynamicClass :: "jsstring \<Rightarrow> bool" where
  "isDynamicClass className =
     (list_ex (starts_with (ascii_lower className)) [lit ''css-'', lit ''jss-''] \<or>
      (case ascii_lower className of
         [] \<Rightarrow> False
       | c # cs \<Rightarrow> c = 95 \<and> 1 \<le> length (takeWhile is_hex cs)) \<or>
      has_digit_run 5 className)"

text \<open>\<open>v || undefined\<close> for a string or \<open>null\<close>.\<close>

definition or_undefined :: "jsstring option \<Rightarrow> jsstring option" where
  "or_undefined v = (if truthy_opt v then v else None)"

definition generateIdSelector :: "element \<Rightarrow> jsstring option" where
  "generateIdSelector el =
     (let ident = el_id (node_of el) in
      if \<not> truthy ident then None
      else if isDynamicId ident then None
      else Some ident)"

definition generateDataTestIdSelector :: "element \<Rightarrow> jsstring option" where
  "generateDataTestIdSelector el = or_undefined (getAttribute el (lit ''data-testid''))"

definition generateAriaLabelSelector :: "element \<Rightarrow> jsstring option" where
  "generateAriaLabelSelector el = or_undefined (getAttribute el (lit ''aria-label''))"

definition generateNameSelector :: "element \<Rightarrow> jsstring option" where
  "generateNameSelector el =
     (if iface (node_of el) = HTMLInputElement \<or> iface (node_of el) = HTMLSelectElement
      then or_undefined (Some (el_name (node_of el)))
      else None)"

definition getElementSelectorPart :: "host \<Rightarrow> element \<Rightarrow> jsstring" where
  "getElementSelectorPart h el =
     (let tag = toLowerCase h (tagName (node_of el)) in
      if truthy (el_id (node_of el)) \<and> \<not> isDynamicId (el_id (node_of el))
      then tag @ lit ''#'' @ cssEscape h (el_id (node_of el))
      else
        let classes = take 2 (filter (\<lambda>cls. \<not> isDynamicClass cls) (classList (node_of el)))
        in if classes \<noteq> [] then tag @ lit ''.'' @ join (lit ''.'') (map (cssEscape h) classes)
           else tag)"

text \<open>
  The loop of \<open>generateCssSelector\<close>: climb while there is a parent, the depth is below
  the maximum and the parent is not \<open>document.body\<close>; a non-empty part of the parent is
  put in front and counts towards the depth.
\<close>

fun cssAncestors :: "host \<Rightarrow> int \<Rightarrow> element \<Rightarrow> nat \<Rightarrow> jsstring list \<Rightarrow> jsstring list" where
  "cssAncestors h maxDepth (Element n None) depth selectorParts = selectorParts"
| "cssAncestors h maxDepth (Element n (Some p)) depth selectorParts =
     (if int depth < maxDepth \<and> \<not> isBody (node_of p) then
        (let parentPart = getElementSelectorPart h p in
         if truthy parentPart
         then cssAncestors h maxDepth p (Suc depth) (parentPart # selectorParts)
         else cssAncestors h maxDepth p depth selectorParts)
      else selectorParts)"

definition generateCssSelector :: "host \<Rightarrow> SelectorConfig \<Rightarrow> element \<Rightarrow> jsstring" where
  "generateCssSelector h cfg el =
     (let classes = take 3 (filter (\<lambda>cls. \<not> isDynamicClass cls) (classList (node_of el)));
          part0 = toLowerCase h (tagName (node_of el)) @
                  concat (map (\<lambda>cls. lit ''.'' @ cssEscape h cls) classes);
          typePart = (if iface (node_of el) = HTMLInputElement \<and> truthy (el_type (node_of el))
                      then lit ''[type=\"'' @ el_type (node_of el) @ lit ''\"]'' else [])
      in join (lit '' > '') (cssAncestors h (maxCssDepth cfg) el 0 [part0 @ typePart]))"

definition generateTextSelector :: "element \<Rightarrow> jsstring option \<times> jsstring option" where
  "generateTextSelector el =
     (case textContent (node_of el) of
        None \<Rightarrow> (None, None)
      | Some t \<Rightarrow>
          let text = trim t in
          if \<not> truthy text then (None, None)
          else if length text \<le> 50 then (Some text, None)
          else (None, Some (take 30 text)))"

text \<open>The 1-based position among the siblings with the same tag name (0 when absent).\<close>

definition sameTagIndex :: "element \<Rightarrow> int" where
  "sameTagIndex el =
     index_of_ref
       (map fst (filter (\<lambda>c. snd c = tagName (node_of el)) (siblings_of el)))
       (ref (node_of el)) + 1"

definition generateRelativeXPath :: "host \<Rightarrow> element \<Rightarrow> jsstring" where
  "generateRelativeXPath h el =
     (let tag = toLowerCase h (tagName (node_of el));
          n = node_of el
      in if truthy (el_id n) \<and> \<not> isDynamicId (el_id n)
         then lit ''//'' @ tag @ lit ''[@id=\"'' @ el_id n @ lit ''\"]''
         else if truthy_opt (getAttribute el (lit ''data-testid''))
         then lit ''//'' @ tag @ lit ''[@data-testid=\"'' @
              the (getAttribute el (lit ''data-testid'')) @ lit ''\"]''
         else if iface n = HTMLInputElement \<and> truthy (el_name n)
         then lit ''//'' @ tag @ lit ''[@name=\"'' @ el_name n @ lit ''\"]''
         else
           let classConditions =
                 join (lit '' and '')
                   (map (\<lambda>cls. lit ''contains(@class, \"'' @ cls @ lit ''\")'')
                      (take 2 (filter (\<lambda>cls. \<not> isDynamicClass cls) (classList n))))
           in if classList n \<noteq> [] \<and> truthy classConditions
              then lit ''//'' @ tag @ lit ''['' @ classConditions @ lit '']''
              else lit ''//'' @ tag @ lit ''['' @ string_of_int (sameTagIndex el) @ lit '']'')"

text \<open>
  The loop of \<open>generateAbsoluteXPath\<close>: from the element up to, and without,
  \<open>document.documentElement\<close>.
\<close>

fun absoluteParts :: "host \<Rightarrow> element \<Rightarrow> jsstring list \<Rightarrow> jsstring list" where
  "absoluteParts h (Element n parent) parts =
     (if isDocumentElement n then parts
      else
        let part = toLowerCase h (tagName n) @ lit ''['' @
                   string_of_int (sameTagIndex (Element n parent)) @ lit '']''
        in case parent of
             None \<Rightarrow> part # parts
           | Some p \<Rightarrow> absoluteParts h p (part # parts))"

definition generateAbsoluteXPath :: "host \<Rightarrow> element \<Rightarrow> jsstring" where
  "generateAbsoluteXPath h el = lit ''/html/'' @ join (lit ''/'') (absoluteParts h el [])"

definition generatePositionSelector :: "host \<Rightarrow> element \<Rightarrow> position_selector option" where
  "generatePositionSelector h el =
     (case parentElement el of
        None \<Rightarrow> None
      | Some p \<Rightarrow>
          let parent = getElementSelectorPart h p in
          if \<not> truthy parent then None
          else Some \<lparr> pos_parent = parent,
                      pos_index = index_of_ref (map fst (children (node_of p))) (ref (node_of el)) \<rparr>)"

text \<open>
  \<open>generateSelectors\<close> starts from an empty object and an empty priority array; for each
  candidate in turn, when its value is truthy, the property is set and its name pushed.
\<close>

definition no_selectors :: SelectorStrategy where
  "no_selectors =
     \<lparr> sel_id = None, dataTestId = None, ariaLabel = None, sel_name = None, css = None,
       sel_text = None, textContains = None, xpath = None, xpathAbsolute = None,
       position = None, priority = [] \<rparr>"

definition push_candidate ::
  "bool \<Rightarrow> (SelectorStrategy \<Rightarrow> SelectorStrategy) \<Rightarrow> jsstring \<Rightarrow> SelectorStrategy \<Rightarrow> SelectorStrategy" where
  "push_candidate present set_property key s =
     (if present then (set_property s)\<lparr>priority := priority s @ [key]\<rparr> else s)"

definition generateSelectors :: "host \<Rightarrow> SelectorConfig \<Rightarrow> element \<Rightarrow> SelectorStrategy" where
  "generateSelectors h cfg el =
     (let ident = generateIdSelector el;
          s1 = push_candidate (truthy_opt ident) (sel_id_update (\<lambda>_. ident)) (lit ''id'')
                 no_selectors;
          testId = generateDataTestIdSelector el;
          s2 = push_candidate (truthy_opt testId) (dataTestId_update (\<lambda>_. testId))
                 (lit ''dataTestId'') s1;
          aria = generateAriaLabelSelector el;
          s3 = push_candidate (truthy_opt aria) (ariaLabel_update (\<lambda>_. aria))
                 (lit ''ariaLabel'') s2;
          name = generateNameSelector el;
          s4 = push_candidate (truthy_opt name) (sel_name_update (\<lambda>_. name)) (lit ''name'') s3;
          cssv = generateCssSelector h cfg el;
          s5 = push_candidate (truthy cssv) (css_update (\<lambda>_. Some cssv)) (lit ''css'') s4;
          tx = generateTextSelector el;
          s6 = (if truthy_opt (fst tx)
                then push_candidate True (sel_text_update (\<lambda>_. fst tx)) (lit ''text'') s5
                else push_candidate (truthy_opt (snd tx)) (textContains_update (\<lambda>_. snd tx))
                       (lit ''textContains'') s5);
          rel = generateRelativeXPath h el;
          s7 = (if includeXPath cfg
                then push_candidate (truthy rel) (xpath_update (\<lambda>_. Some rel)) (lit ''xpath'') s6
                else s6);
          ab = generateAbsoluteXPath h el;
          s8 = (if includeXPath cfg
                then push_candidate (truthy ab) (xpathAbsolute_update (\<lambda>_. Some ab))
                       (lit ''xpathAbsolute'') s7
                else s7);
          pos = generatePositionSelector h el;
          s9 = (if includePosition cfg
                then push_candidate (pos \<noteq> None) (position_update (\<lambda>_. pos)) (lit ''position'') s8
                else s8)
      in s9)"

section \<open>Event capture engine: pointer events (content/event-listener)\<close>

record MouseEvent =
  target :: element
  clientX :: real
  clientY :: real
  ev_button :: int
  ctrlKey :: bool
  shiftKey :: bool
  altKey :: bool
  metaKey :: bool

text \<open>
  What a handler reads from the page while it runs: \<open>Date.now()\<close> at the double-click
  check and at the creation of the action, \<open>window.location.href\<close>, and the left and
  top of the target's bounding rectangle.
\<close>

record click_env =
  now_check :: int
  now_action :: int
  location_href :: jsstring
  rect_left :: real
  rect_top :: real

text \<open>
  The fields of the listener that the pointer handlers read or write.  (The debounce
  timers and typing counters belong to the input and scroll handlers.)
\<close>

record EventListener =
  isListening :: bool
  lastClickTarget :: "nat option"
  lastClickTime :: int
  actionSequence :: nat

text \<open>
  \<open>generateActionId\<close> is imported from the types module, which is not among the
  sources; it is a parameter, next to the host and the selector configuration.
\<close>

record capture_deps =
  dep_host :: host
  dep_config :: SelectorConfig
  generateActionId :: "nat \<Rightarrow> jsstring"

definition indicator_id :: jsstring where
  "indicator_id = lit ''saveaction-recording-indicator''"

text \<open>\<open>element.closest('#saveaction-recording-indicator')\<close> is not \<open>null\<close>.\<close>

fun inside_indicator :: "element \<Rightarrow> bool" where
  "inside_indicator (Element n parent) =
     (el_id n = indicator_id \<or>
      (case parent of None \<Rightarrow> False | Some p \<Rightarrow> inside_indicator p))"

definition class_matches :: "host \<Rightarrow> jsstring list \<Rightarrow> string list \<Rightarrow> bool" where
  "class_matches h classes patterns =
     list_ex (\<lambda>pattern. list_ex (\<lambda>cls. js_includes (toLowerCase h cls) (lit pattern)) classes)
       patterns"

definition interactiveListPatterns :: "string list" where
  "interactiveListPatterns =
     [''menu'', ''dropdown'', ''options'', ''list'', ''choices'', ''select'', ''autocomplete'']"

definition isInteractiveElement :: "host \<Rightarrow> element \<Rightarrow> bool" where
  "isInteractiveElement h el =
     (let n = node_of el in
      if tagName n \<in> set (map lit [''A'', ''BUTTON'', ''INPUT'', ''SELECT'', ''TEXTAREA'', ''LABEL''])
        then True
      else if hasAttribute el (lit ''onclick'') then True
      else if truthy_opt (getAttribute el (lit ''role'')) \<and>
              the (getAttribute el (lit ''role'')) \<in> set (map lit
                [''button'', ''link'', ''menuitem'', ''menuitemcheckbox'', ''menuitemradio'',
                 ''option'', ''radio'', ''checkbox'', ''tab'', ''switch'', ''treeitem''])
        then True
      else if class_matches h (classList n)
                [''btn'', ''button'', ''clickable'', ''click'', ''link'', ''menu-item'',
                 ''dropdown-item'', ''option'', ''select'', ''choice'', ''action'',
                 ''interactive'', ''autocomplete'']
        then True
      else if list_ex (\<lambda>a. hasAttribute el (lit a))
                [''data-action'', ''data-click'', ''data-toggle'', ''data-target'',
                 ''data-value'', ''data-option'', ''data-select'', ''data-href'', ''data-link'']
        then True
      else if cursor n = lit ''pointer'' then True
      else if tagName n = lit ''LI'' \<and>
              (case parentElement el of
                 None \<Rightarrow> False
               | Some p \<Rightarrow>
                   tagName (node_of p) = lit ''UL'' \<and>
                   (class_matches h (classList (node_of p)) interactiveListPatterns \<or>
                    \<not> class_matches h (classList (node_of p))
                        [''nav'', ''navigation'', ''breadcrumb'', ''footer'', ''header'']))
        then True
      else if tagName n = lit ''DIV'' \<or> tagName n = lit ''SPAN'' then
        (if hasAttribute el (lit ''tabindex'') then True
         else if class_matches h
                   (case parentElement el of None \<Rightarrow> [] | Some p \<Rightarrow> classList (node_of p))
                   [''dropdown'', ''menu'', ''select'', ''option'']
           then True
         else
           (case parentElement el of
              None \<Rightarrow> False
            | Some p \<Rightarrow>
                tagName (node_of p) = lit ''LI'' \<and>
                (case parentElement p of
                   None \<Rightarrow> False
                 | Some g \<Rightarrow> class_matches h (classList (node_of g)) interactiveListPatterns)))
      else False)"

text \<open>
  \<open>findInteractiveElement\<close>: climb from the event target until \<open>document.body\<close> or the
  root; an element inside the recording indicator ends the search with \<open>null\<close>.
\<close>

fun findInteractiveElement :: "host \<Rightarrow> element \<Rightarrow> element option" where
  "findInteractiveElement h (Element n parent) =
     (if isBody n then None
      else if inside_indicator (Element n parent) then None
      else if isInteractiveElement h (Element n parent) then Some (Element n parent)
      else (case parent of None \<Rightarrow> None | Some p \<Rightarrow> findInteractiveElement h p))"

definition isNavigationClick :: "element \<Rightarrow> bool" where
  "isNavigationClick el =
     (let n = node_of el in
      if inside_indicator el then False
      else if tagName n = lit ''A'' \<and> truthy (href n) then True
      else if tagName n = lit ''BUTTON'' \<and> (el_type n = lit ''submit'' \<or> \<not> truthy (el_type n))
        then True
      else if tagName n = lit ''INPUT'' \<and> el_type n = lit ''submit'' then True
      else False)"

definition getModifierKeys :: "MouseEvent \<Rightarrow> jsstring list" where
  "getModifierKeys ev =
     (if ctrlKey ev then [lit ''ctrl''] else []) @
     (if shiftKey ev then [lit ''shift''] else []) @
     (if altKey ev then [lit ''alt''] else []) @
     (if metaKey ev then [lit ''meta''] else [])"

definition createClickAction ::
  "capture_deps \<Rightarrow> click_env \<Rightarrow> EventListener \<Rightarrow> MouseEvent \<Rightarrow> element \<Rightarrow> nat \<Rightarrow>
     action \<times> EventListener" where
  "createClickAction d env st ev tgt clicks =
     (let sequence = Suc (actionSequence st) in
      (\<lparr> act_id = generateActionId d sequence,
         act_type = lit ''click'',
         timestamp = now_action env,
         act_url = location_href env,
         selector = Some (generateSelectors (dep_host d) (dep_config d) tgt),
         act_tagName = Some (toLowerCase (dep_host d) (tagName (node_of tgt))),
         act_text = map_option trim (textContent (node_of tgt)),
         coordinates = Some (clientX ev - rect_left env, clientY ev - rect_top env),
         coordinatesRelativeTo = Some (lit ''element''),
         button = Some (if ev_button ev = 0 then lit ''left''
                        else if ev_button ev = 1 then lit ''middle'' else lit ''right''),
         clickCount = Some clicks,
         modifiers = getModifierKeys ev,
         act_value = None, inputType = None, isSensitive = False,
         nav_from = None, nav_to = None \<rparr>,
       st\<lparr>actionSequence := sequence\<rparr>))"

text \<open>
  What a handler leaves behind: the listener, the actions emitted to the callback, whether
  the default action of the event was prevented, and the element on which a click is
  re-triggered 50 ms later.
\<close>

record handled =
  listener :: EventListener
  emitted :: "action list"
  defaultPrevented :: bool
  reclick :: "nat option"

definition ignored :: "EventListener \<Rightarrow> handled" where
  "ignored st = \<lparr> listener = st, emitted = [], defaultPrevented = False, reclick = None \<rparr>"

definition onClick :: "capture_deps \<Rightarrow> click_env \<Rightarrow> EventListener \<Rightarrow> MouseEvent \<Rightarrow> handled" where
  "onClick d env st ev =
     (if \<not> isListening st then ignored st
      else
        case findInteractiveElement (dep_host d) (target ev) of
          None \<Rightarrow> ignored st
        | Some tgt \<Rightarrow>
            let now = now_check env;
                isDoubleClick = (lastClickTarget st = Some (ref (node_of tgt)) \<and>
                                 now - lastClickTime st < 500);
                st1 = st\<lparr>lastClickTarget := Some (ref (node_of tgt)), lastClickTime := now\<rparr>
            in if isDoubleClick then ignored st1
               else
                 let created = createClickAction d env st1 ev tgt 1
                 in if isNavigationClick tgt
                    then \<lparr> listener = snd created, emitted = [fst created],
                           defaultPrevented = True,
                           reclick = (if iface (node_of tgt) \<noteq> OtherElement
                                      then Some (ref (node_of tgt)) else None) \<rparr>
                    else \<lparr> listener = snd created, emitted = [fst created],
                           defaultPrevented = False, reclick = None \<rparr>)"

definition onMouseDown :: "capture_deps \<Rightarrow> click_env \<Rightarrow> EventListener \<Rightarrow> MouseEvent \<Rightarrow> handled" where
  "onMouseDown d env st ev =
     (if \<not> isListening st then ignored st
      else
        case findInteractiveElement (dep_host d) (target ev) of
          None \<Rightarrow> ignored st
        | Some tgt \<Rightarrow>
            if isNavigationClick tgt then ignored st
            else
              let created = createClickAction d env st ev tgt 1
              in \<lparr> listener = snd created, emitted = [fst created],
                   defaultPrevented = False, reclick = None \<rparr>)"

definition onDoubleClick :: "capture_deps \<Rightarrow> click_env \<Rightarrow> EventListener \<Rightarrow> MouseEvent \<Rightarrow> handled" where
  "onDoubleClick d env st ev =
     (if \<not> isListening st then ignored st
      else
        case findInteractiveElement (dep_host d) (target ev) of
          None \<Rightarrow> ignored st
        | Some tgt \<Rightarrow>
            let created = createClickAction d env st ev tgt 2
            in \<lparr> listener = snd created, emitted = [fst created],
                 defaultPrevented = False, reclick = None \<rparr>)"

text \<open>Pointer events in the order the page delivers them, and all the actions emitted.\<close>

datatype pointer_event =
    Click MouseEvent click_env
  | MouseDown MouseEvent click_env
  | DblClick MouseEvent click_env

fun dispatch :: "capture_deps \<Rightarrow> EventListener \<Rightarrow> pointer_event \<Rightarrow> handled" where
  "dispatch d st (Click ev env) = onClick d env st ev"
| "dispatch d st (MouseDown ev env) = onMouseDown d env st ev"
| "dispatch d st (DblClick ev env) = onDoubleClick d env st ev"

fun emitted_by :: "capture_deps \<Rightarrow> EventListener \<Rightarrow> pointer_event list \<Rightarrow> action list" where
  "emitted_by d st [] = []"
| "emitted_by d st (e # es) =
     emitted (dispatch d st e) @ emitted_by d (listener (dispatch d st e)) es"

section \<open>Sanitization pipeline (utils/sanitizer)\<close>

definition maskPassword :: "jsstring \<Rightarrow> jsstring" where
  "maskPassword v = replicate (length v) bullet"

definition maskCreditCard :: "jsstring \<Rightarrow> jsstring" where
  "maskCreditCard v =
     (if length v \<le> 4 then v
      else
        let last4 = drop (length v - 4) v;
            masked = map (\<lambda>c. if is_digit c then 42 else c) (take (length v - 4) v)
        in masked @ last4)"

definition maskEmail :: "jsstring \<Rightarrow> jsstring" where
  "maskEmail v =
     (let atIndex = indexOf v 64 in
      if atIndex \<le> 2 then v
      else
        let username = take (nat atIndex) v;
            domain = drop (nat atIndex) v;
            visibleChars = take 2 username;
            maskedChars = replicate (length username - 2) bullet
        in visibleChars @ maskedChars @ domain)"

definition allPatterns :: "jsstring list" where
  "allPatterns =
     map lit [''password'', ''passwd'', ''pwd'', ''pass'', ''passphrase'',
              ''card'', ''cc-number'', ''cardnumber'', ''card_number'', ''creditcard'',
              ''credit-card'',
              ''cvv'', ''cvc'', ''csc'', ''security-code'', ''security_code'', ''card-code'',
              ''ssn'', ''social-security'', ''social_security'',
              ''pin'', ''pin-code'', ''pincode'']"

definition isSensitiveField :: "host \<Rightarrow> jsstring \<Rightarrow> jsstring \<Rightarrow> jsstring \<Rightarrow> jsstring \<Rightarrow> bool" where
  "isSensitiveField h type inputType' name ident =
     (if type = lit ''password'' \<or> inputType' = lit ''password'' then True
      else
        let combined = toLowerCase h name @ lit '' '' @ toLowerCase h ident
        in list_ex (\<lambda>pattern. js_includes combined pattern) allPatterns)"

definition sanitizeValue :: "host \<Rightarrow> jsstring \<Rightarrow> jsstring \<Rightarrow> jsstring \<Rightarrow> jsstring \<Rightarrow> jsstring" where
  "sanitizeValue h v type name ident =
     (if \<not> isSensitiveField h type type name ident then
        (if type = lit ''email'' \<and> js_includes v (lit ''@'') then maskEmail v else v)
      else
        let combined = toLowerCase h name @ lit '' '' @ toLowerCase h ident;
            stripped = filter (\<lambda>c. \<not> (is_space c \<or> c = 45)) v
        in if js_includes combined (lit ''card'') \<or> js_includes combined (lit ''cc-number'') \<or>
              (list_all is_digit stripped \<and> 13 \<le> length stripped \<and> length stripped \<le> 19)
           then maskCreditCard v
           else maskPassword v)"

text \<open>
  \<open>sanitizeAction\<close> reads \<open>selector.name\<close>, \<open>selector.id\<close>, \<open>value\<close> and \<open>inputType\<close> of
  an input action flagged sensitive.  The type \<open>InputAction\<close> requires all of them; on an
  object that lacks one the model answers \<open>TypeError\<close>.
\<close>

datatype js_error = TypeError

text \<open>\<open>v || ''\<close> for an optional string.\<close>

definition or_empty :: "jsstring option \<Rightarrow> jsstring" where
  "or_empty v = (if truthy_opt v then the v else [])"

definition sanitizeAction :: "host \<Rightarrow> action \<Rightarrow> js_error + action" where
  "sanitizeAction h a =
     (if act_type a \<noteq> lit ''input'' then Inr a
      else if \<not> isSensitive a then Inr a
      else
        case (selector a, act_value a, inputType a) of
          (Some sel, Some v, Some ty) \<Rightarrow>
            (let name = or_empty (sel_name sel);
                 ident = or_empty (sel_id sel);
                 sanitizedValue = sanitizeValue h v ty name ident
             in Inr (a\<lparr>act_value := Some sanitizedValue\<rparr>))
        | _ \<Rightarrow> Inl TypeError)"

section \<open>Recording validator (utils/sanitizer, validation part)\<close>

record ValidationError =
  field :: jsstring
  message :: jsstring

record ValidationResult =
  isValid :: bool
  errors :: "ValidationError list"

definition verr :: "string \<Rightarrow> string \<Rightarrow> ValidationError" where
  "verr f m = \<lparr> field = lit f, message = lit m \<rparr>"

text \<open>
  \<open>selector[key]\<close> for the entries of \<open>priority\<close>, which are candidate names: a string
  candidate is usable when it is a non-empty string; \<open>position\<close>, when present, is an
  object that is not an array, which the check rejects like a missing value; \<open>priority\<close>
  itself is an array, which passes.  Any other key is \<open>undefined\<close>.
\<close>

definition string_candidate :: "SelectorStrategy \<Rightarrow> jsstring \<Rightarrow> jsstring option" where
  "string_candidate sel key =
     (if key = lit ''id'' then sel_id sel
      else if key = lit ''dataTestId'' then dataTestId sel
      else if key = lit ''ariaLabel'' then ariaLabel sel
      else if key = lit ''name'' then sel_name sel
      else if key = lit ''css'' then css sel
      else if key = lit ''text'' then sel_text sel
      else if key = lit ''textContains'' then textContains sel
      else if key = lit ''xpath'' then xpath sel
      else if key = lit ''xpathAbsolute'' then xpathAbsolute sel
      else None)"

definition priority_entry_defined :: "SelectorStrategy \<Rightarrow> jsstring \<Rightarrow> bool" where
  "priority_entry_defined sel key =
     (if key = lit ''priority'' then True
      else if key = lit ''position'' then False
      else truthy_opt (string_candidate sel key))"

definition hasAnySelector :: "SelectorStrategy \<Rightarrow> bool" where
  "hasAnySelector sel =
     (truthy_opt (sel_id sel) \<or> truthy_opt (dataTestId sel) \<or> truthy_opt (ariaLabel sel) \<or>
      truthy_opt (sel_name sel) \<or> truthy_opt (css sel) \<or> truthy_opt (sel_text sel) \<or>
      truthy_opt (textContains sel) \<or> truthy_opt (xpath sel) \<or>
      truthy_opt (xpathAbsolute sel) \<or> position sel \<noteq> None)"

definition mk_result :: "ValidationError list \<Rightarrow> ValidationResult" where
  "mk_result es = \<lparr> isValid = (es = []), errors = es \<rparr>"

definition validateSelector :: "SelectorStrategy \<Rightarrow> ValidationResult" where
  "validateSelector sel =
     mk_result
       ((if priority sel = [] then [verr ''selector.priority'' ''Priority array cannot be empty'']
         else []) @
        concat (map (\<lambda>key.
            if \<not> priority_entry_defined sel key
            then [\<lparr> field = lit ''selector.'' @ key,
                    message = lit ''Priority references \"'' @ key @
                              lit ''\" but selector is not defined'' \<rparr>]
            else []) (priority sel)) @
        (if \<not> hasAnySelector sel
         then [verr ''selector'' ''At least one selector must be provided''] else []))"

definition selector_errors :: "string \<Rightarrow> SelectorStrategy option \<Rightarrow> ValidationError list" where
  "selector_errors missing sel =
     (case sel of
        None \<Rightarrow> [verr ''action.selector'' missing]
      | Some s \<Rightarrow> errors (validateSelector s))"

definition validateAction :: "action \<Rightarrow> ValidationResult" where
  "validateAction a =
     mk_result
       ((if \<not> truthy (act_id a) then [verr ''action.id'' ''Action ID is required''] else []) @
        (if \<not> truthy (act_type a) then [verr ''action.type'' ''Action type is required''] else []) @
        (if timestamp a < 0
         then [verr ''action.timestamp'' ''Timestamp must be a positive number''] else []) @
        (if \<not> truthy (act_url a) then [verr ''action.url'' ''Action URL is required''] else []) @
        (if act_type a = lit ''click'' then
           selector_errors ''Click action must have a selector'' (selector a) @
           (if \<not> truthy_opt (act_tagName a)
            then [verr ''action.tagName'' ''Click action must have a tagName''] else []) @
           (if coordinates a = None
            then [verr ''action.coordinates'' ''Click action must have coordinates''] else [])
         else if act_type a = lit ''input'' then
           selector_errors ''Input action must have a selector'' (selector a) @
           (if act_value a = None
            then [verr ''action.value'' ''Input action must have a value''] else []) @
           (if \<not> truthy_opt (inputType a)
            then [verr ''action.inputType'' ''Input action must have an inputType''] else [])
         else if act_type a = lit ''navigation'' then
           (if \<not> truthy_opt (nav_from a)
            then [verr ''action.from'' ''Navigation action must have a \"from\" URL''] else []) @
           (if \<not> truthy_opt (nav_to a)
            then [verr ''action.to'' ''Navigation action must have a \"to\" URL''] else [])
         else []))"

text \<open>The errors of the action at \<open>index\<close>, their fields prefixed with \<open>actions[index].\<close>.\<close>

definition indexed_action_errors :: "nat \<times> action \<Rightarrow> ValidationError list" where
  "indexed_action_errors ia =
     (let actionResult = validateAction (snd ia) in
      if \<not> isValid actionResult then
        map (\<lambda>e. \<lparr> field = lit ''actions['' @ string_of_nat (fst ia) @ lit ''].'' @ field e,
                   message = message e \<rparr>) (errors actionResult)
      else [])"

definition viewport_errors :: "viewport_size option \<Rightarrow> ValidationError list" where
  "viewport_errors vp =
     (case vp of
        None \<Rightarrow> [verr ''recording.viewport'' ''Viewport is required'']
      | Some v \<Rightarrow>
          if width v \<le> 0 \<or> height v \<le> 0
          then [verr ''recording.viewport'' ''Viewport width and height must be positive numbers'']
          else [])"

definition validateRecording :: "host \<Rightarrow> recording \<Rightarrow> ValidationResult" where
  "validateRecording h r =
     mk_result
       ((if \<not> truthy (rec_id r) then [verr ''recording.id'' ''Recording ID is required''] else []) @
        (if \<not> truthy (version r)
         then [verr ''recording.version'' ''Schema version is required''] else []) @
        (if \<not> truthy (rec_testName r) \<or> trim (rec_testName r) = []
         then [verr ''recording.testName'' ''Test name cannot be empty''] else []) @
        (if \<not> truthy (rec_url r) then [verr ''recording.url'' ''Recording URL is required'']
         else if \<not> urlParses h (rec_url r) then [verr ''recording.url'' ''Invalid URL format'']
         else []) @
        (if \<not> truthy (rec_startTime r)
         then [verr ''recording.startTime'' ''Start time is required'']
         else if \<not> dateParses h (rec_startTime r)
         then [verr ''recording.startTime'' ''Start time must be valid ISO 8601 format'']
         else []) @
        (if truthy_opt (endTime r) \<and> \<not> dateParses h (the (endTime r))
         then [verr ''recording.endTime'' ''End time must be valid ISO 8601 format''] else []) @
        viewport_errors (viewport r) @
        (if \<not> truthy (userAgent r)
         then [verr ''recording.userAgent'' ''User agent is required''] else []) @
        (case actions r of
           None \<Rightarrow> [verr ''recording.actions'' ''Actions array is required'']
         | Some as \<Rightarrow> concat (map indexed_action_errors (enumerate 0 as))))"

section \<open>Session coordinator (background service worker)\<close>

subsection \<open>State\<close>

record RecordingMetadata =
  md_id :: jsstring
  md_testName :: jsstring
  md_url :: jsstring
  md_startTime :: jsstring
  md_endTime :: "jsstring option"
  md_actionCount :: nat

record BackgroundState =
  isRecording :: bool
  isPaused :: bool
  testName :: "jsstring option"
  currentTabId :: "int option"
  startTime :: "int option"
  metadata :: "RecordingMetadata option"
  accumulatedActions :: "action list"
  actionCache :: "action list"
  pollingInterval :: bool
  actionCounter :: nat

definition initial_state :: BackgroundState where
  "initial_state =
     \<lparr> isRecording = False, isPaused = False, testName = None, currentTabId = None,
       startTime = None, metadata = None, accumulatedActions = [], actionCache = [],
       pollingInterval = False, actionCounter = 0 \<rparr>"

text \<open>
  Calls a handler makes to the browser API and to the utility modules of the
  repository (\<open>utils/storage\<close>, \<open>utils/sanitizer\<close>), in the order it makes them.
\<close>

datatype call =
    TabsQuery
  | TabsSendMessage int jsstring
  | TabsGet int
  | SessionGet
  | SessionSet "action list"
  | SessionRemove
  | SaveRecording recording
  | ValidateRecording recording
  | RuntimeSendMessage jsstring

text \<open>
  The coordinator together with what it reads and writes outside its own memory:
  the key \<open>saveaction_current_actions\<close> of \<open>chrome.storage.session\<close> (the durable
  per-page action cache), the keys \<open>recording_ids\<close> and \<open>recording_<id>\<close> of
  \<open>chrome.storage.local\<close>, and the log of calls made so far.  The handler functions
  below run from their first to their last statement; this is the coordinator when no
  request arrives while an earlier one is still being handled.  The handlers of sync
  requests and of navigations are also given cut at their awaits, for requests that
  overlap.
\<close>

record world =
  state :: BackgroundState
  session_actions :: "action list option"
  recording_ids :: "jsstring list"
  recordings :: "jsstring \<Rightarrow> recording option"
  calls :: "call list"

definition initial_world :: world where
  "initial_world =
     \<lparr> state = initial_state, session_actions = None, recording_ids = [],
       recordings = (\<lambda>_. None), calls = [] \<rparr>"

datatype status_metadata = StatusMetadata jsstring int nat

datatype response_data =
    NoData
  | StateData jsstring "jsstring option"
  | RecordingData recording
  | StatusData jsstring "status_metadata option"

text \<open>\<open>{success: true, data}\<close> and \<open>{success: false, error}\<close>.\<close>

datatype MessageResponse = Success response_data | Failure jsstring

text \<open>
  What a message to the content script of a tab comes back with: the promise
  rejects with a message (the tab is unreachable), resolves with \<open>undefined\<close>,
  or resolves with \<open>{success, data}\<close>.
\<close>

datatype 'a reply = Rejects jsstring | NoReply | Reply bool "'a option"

definition log_call :: "call \<Rightarrow> world \<Rightarrow> world" where
  "log_call c w = w\<lparr>calls := calls w @ [c]\<rparr>"

text \<open>\<open>!tabId\<close>: \<open>null\<close>, \<open>undefined\<close> and \<open>0\<close> are falsy.\<close>

definition falsy_num :: "int option \<Rightarrow> bool" where
  "falsy_num v = (case v of None \<Rightarrow> True | Some n \<Rightarrow> n = 0)"

definition recordingState :: "BackgroundState \<Rightarrow> jsstring" where
  "recordingState s =
     (if isRecording s then (if isPaused s then lit ''paused'' else lit ''recording'')
      else lit ''idle'')"

definition broadcastStatusUpdate :: "world \<Rightarrow> world" where
  "broadcastStatusUpdate w = log_call (RuntimeSendMessage (recordingState (state w))) w"

definition resetState :: "world \<Rightarrow> world" where
  "resetState w = w\<lparr>state := initial_state\<rparr>"

definition startActionPolling :: "world \<Rightarrow> world" where
  "startActionPolling w = w\<lparr>state := (state w)\<lparr>pollingInterval := True\<rparr>\<rparr>"

definition stopActionPolling :: "world \<Rightarrow> world" where
  "stopActionPolling w = w\<lparr>state := (state w)\<lparr>pollingInterval := False\<rparr>\<rparr>"

subsection \<open>start\<close>

record start_env =
  tabs_query :: "jsstring + int option list"
  start_now :: int
  start_send :: "unit reply"

definition handleStartRecording :: "jsstring \<Rightarrow> start_env \<Rightarrow> world \<Rightarrow> MessageResponse \<times> world" where
  "handleStartRecording name env w =
     (if isRecording (state w) then (Failure (lit ''Recording is already in progress''), w)
      else
        let w1 = log_call TabsQuery w in
        case tabs_query env of
          Inl msg \<Rightarrow> (Failure msg, w1)
        | Inr [] \<Rightarrow> (Failure (lit ''No active tab found''), w1)
        | Inr (tab # _) \<Rightarrow>
            if falsy_num tab then (Failure (lit ''Invalid tab ID''), w1)
            else
              let tabId = the tab;
                  w2 = w1\<lparr>state := (state w1)\<lparr>isRecording := True, isPaused := False,
                          testName := Some name, currentTabId := Some tabId,
                          startTime := Some (start_now env), metadata := None\<rparr>\<rparr>;
                  w3 = log_call (TabsSendMessage tabId (lit ''START_RECORDING'')) w2
              in case start_send env of
                   Rejects msg \<Rightarrow>
                     (Failure (lit ''Failed to start recording: '' @ msg), resetState w3)
                 | _ \<Rightarrow>
                     (Success (StateData (lit ''recording'') (Some name)),
                      broadcastStatusUpdate (startActionPolling w3)))"

subsection \<open>pause and resume\<close>

definition handlePauseRecording :: "unit reply \<Rightarrow> world \<Rightarrow> MessageResponse \<times> world" where
  "handlePauseRecording send w =
     (if \<not> isRecording (state w) then (Failure (lit ''No active recording to pause''), w)
      else if isPaused (state w) then (Failure (lit ''Recording is already paused''), w)
      else if falsy_num (currentTabId (state w))
        then (Failure (lit ''No active tab for recording''), w)
      else
        let w1 = log_call (TabsSendMessage (the (currentTabId (state w))) (lit ''PAUSE_RECORDING'')) w
        in case send of
             Rejects msg \<Rightarrow> (Failure (lit ''Failed to pause recording: '' @ msg), w1)
           | _ \<Rightarrow>
               (Success (StateData (lit ''paused'') None),
                broadcastStatusUpdate (w1\<lparr>state := (state w1)\<lparr>isPaused := True\<rparr>\<rparr>)))"

definition handleResumeRecording :: "unit reply \<Rightarrow> world \<Rightarrow> MessageResponse \<times> world" where
  "handleResumeRecording send w =
     (if \<not> isRecording (state w) then (Failure (lit ''No active recording to resume''), w)
      else if \<not> isPaused (state w) then (Failure (lit ''Recording is not paused''), w)
      else if falsy_num (currentTabId (state w))
        then (Failure (lit ''No active tab for recording''), w)
      else
        let w1 = log_call (TabsSendMessage (the (currentTabId (state w))) (lit ''RESUME_RECORDING'')) w
        in case send of
             Rejects msg \<Rightarrow> (Failure (lit ''Failed to resume recording: '' @ msg), w1)
           | _ \<Rightarrow>
               (Success (StateData (lit ''recording'') None),
                broadcastStatusUpdate (w1\<lparr>state := (state w1)\<lparr>isPaused := False\<rparr>\<rparr>)))"

subsection \<open>Durable storage\<close>

text \<open>
  \<open>saveRecording\<close> of \<open>utils/storage\<close>: reads \<open>recording_ids\<close>, appends the id when it is
  new and writes the recording and the id list in one \<open>set\<close>.  When the write reports
  \<open>chrome.runtime.lastError\<close> the promise rejects and nothing is stored.
\<close>

definition saveRecording :: "recording \<Rightarrow> jsstring option \<Rightarrow> world \<Rightarrow> world" where
  "saveRecording r err w =
     (let w1 = log_call (SaveRecording r) w;
          recordingIds = (if rec_id r \<in> set (recording_ids w1) then recording_ids w1
                          else recording_ids w1 @ [rec_id r])
      in case err of
           Some _ \<Rightarrow> w1
         | None \<Rightarrow> w1\<lparr>recording_ids := recordingIds,
                         recordings := (recordings w1)(rec_id r \<mapsto> r)\<rparr>)"

text \<open>
  The block that reads \<open>saveaction_current_actions\<close> before a navigation and at stop:
  the stored array, or the empty array when the key is absent or the read throws.
\<close>

definition readCurrentPageActions :: "jsstring option \<Rightarrow> action list option \<Rightarrow> action list" where
  "readCurrentPageActions err stored =
     (case err of
        Some _ \<Rightarrow> []
      | None \<Rightarrow> (case stored of None \<Rightarrow> [] | Some xs \<Rightarrow> xs))"

subsection \<open>stop\<close>

text \<open>
  \<open>new Date(ms).toISOString()\<close> throws a \<open>RangeError\<close> outside the range of valid
  time values; inside it, the rendering is the host's (\<open>toISOString\<close> of the
  environment).
\<close>

record stop_env =
  stop_get :: "jsstring option"
  stop_send :: "recording reply"
  stop_tab :: "jsstring + jsstring option"
  stop_now_id :: int
  stop_now_end :: int
  stop_save :: "jsstring option"
  toISOString :: "int \<Rightarrow> jsstring"

definition valid_time_value :: "int \<Rightarrow> bool" where
  "valid_time_value t = (\<bar>t\<bar> \<le> 8640000000000000)"

definition finishStop :: "recording \<Rightarrow> jsstring option \<Rightarrow> world \<Rightarrow> MessageResponse \<times> world" where
  "finishStop r err w =
     (Success (RecordingData r), broadcastStatusUpdate (resetState (saveRecording r err w)))"

definition buildFromBackgroundState ::
  "int \<Rightarrow> action list \<Rightarrow> stop_env \<Rightarrow> world \<Rightarrow> MessageResponse \<times> world" where
  "buildFromBackgroundState tabId currentPageActions env w =
     (if \<not> truthy_opt (testName (state w)) \<or> falsy_num (startTime (state w))
      then (Failure (lit ''Failed to stop recording: Missing recording metadata''), resetState w)
      else
        let w1 = log_call (TabsGet tabId) w;
            currentUrl = (case stop_tab env of
                            Inl _ \<Rightarrow> lit ''unknown''
                          | Inr None \<Rightarrow> []
                          | Inr (Some u) \<Rightarrow> u)
        in if \<not> valid_time_value (the (startTime (state w1)))
           then (Failure (lit ''Failed to stop recording: Invalid time value''), resetState w1)
           else
             let r = \<lparr> rec_id = lit ''rec_'' @ string_of_int (stop_now_id env),
                       version = lit ''1.0.0'',
                       rec_testName = the (testName (state w1)),
                       rec_url = currentUrl,
                       rec_startTime = toISOString env (the (startTime (state w1))),
                       endTime = Some (toISOString env (stop_now_end env)),
                       viewport = Some \<lparr> width = 1920, height = 1080 \<rparr>,
                       userAgent = lit ''Mozilla/5.0 (Windows NT 10.0; Win64; x64) AppleWebKit/537.36'',
                       actions = Some (sort_key timestamp
                                        (accumulatedActions (state w1) @ currentPageActions)) \<rparr>
             in finishStop r (stop_save env) w1)"

definition handleStopRecording :: "stop_env \<Rightarrow> world \<Rightarrow> MessageResponse \<times> world" where
  "handleStopRecording env w =
     (if \<not> isRecording (state w) then (Failure (lit ''No active recording''), w)
      else if falsy_num (currentTabId (state w))
        then (Failure (lit ''No active tab for recording''), resetState w)
      else
        let tabId = the (currentTabId (state w));
            w1 = log_call SessionGet (stopActionPolling w);
            currentPageActions = readCurrentPageActions (stop_get env) (session_actions w1);
            w2 = log_call (TabsSendMessage tabId (lit ''STOP_RECORDING'')) w1
        in case stop_send env of
             Reply True (Some data) \<Rightarrow>
               (let r0 = data\<lparr>actions := Some currentPageActions\<rparr>
                in if truthy (rec_id r0) \<and> truthy (rec_testName r0) \<and> truthy (rec_startTime r0)
                   then
                     (let r1 = (if accumulatedActions (state w2) \<noteq> []
                                then r0\<lparr>actions := Some (sort_key timestamp
                                       (accumulatedActions (state w2) @ currentPageActions))\<rparr>
                                else r0)
                      in finishStop r1 (stop_save env) w2)
                   else buildFromBackgroundState tabId currentPageActions env w2)
           | _ \<Rightarrow> buildFromBackgroundState tabId currentPageActions env w2)"

subsection \<open>sync\<close>

definition formatActionId :: "nat \<Rightarrow> jsstring" where
  "formatActionId n = lit ''act_'' @ padStart0 3 (string_of_nat n)"

record sync_env =
  sync_get :: "jsstring option"
  sync_set :: "jsstring option"

definition handleSyncAction :: "action option \<Rightarrow> sync_env \<Rightarrow> world \<Rightarrow> MessageResponse \<times> world" where
  "handleSyncAction payload env w =
     (if \<not> isRecording (state w) \<or> payload = None then (Success NoData, w)
      else
        let counter = Suc (actionCounter (state w));
            w1 = w\<lparr>state := (state w)\<lparr>actionCounter := counter\<rparr>\<rparr>;
            a = (the payload)\<lparr>act_id := formatActionId counter\<rparr>;
            w2 = log_call SessionGet w1
        in case sync_get env of
             Some msg \<Rightarrow> (Failure msg, w2)
           | None \<Rightarrow>
               (let stored = (case session_actions w2 of None \<Rightarrow> [] | Some xs \<Rightarrow> xs) @ [a];
                    w3 = log_call (SessionSet stored) w2
                in case sync_set env of
                     Some msg \<Rightarrow> (Failure msg, w3)
                   | None \<Rightarrow> (Success NoData, w3\<lparr>session_actions := Some stored\<rparr>)))"

subsection \<open>Pre-unload flush, navigation, tab closure, polling, status\<close>

definition handleSaveCurrentState :: "action list option reply \<Rightarrow> world \<Rightarrow> MessageResponse \<times> world" where
  "handleSaveCurrentState send w =
     (if \<not> isRecording (state w) then (Success NoData, w)
      else if falsy_num (currentTabId (state w)) then (Success NoData, w)
      else
        let w1 = log_call (TabsSendMessage (the (currentTabId (state w))) (lit ''SAVE_CURRENT_STATE'')) w
        in case send of
             Reply True (Some (Some newActions)) \<Rightarrow>
               (Success NoData,
                if newActions \<noteq> []
                then w1\<lparr>state := (state w1)\<lparr>accumulatedActions :=
                            accumulatedActions (state w1) @ newActions\<rparr>\<rparr>
                else w1)
           | _ \<Rightarrow> (Success NoData, w1))"

text \<open>
  The merge of the navigation listener: the current page's actions whose timestamp is
  not among the accumulated ones are appended.
\<close>

definition mergeBeforeNavigation :: "action list \<Rightarrow> action list \<Rightarrow> action list" where
  "mergeBeforeNavigation accumulated currentPageActions =
     (if currentPageActions \<noteq> [] then
        (let existingTimestamps = set (map timestamp accumulated);
             newActions = filter (\<lambda>a. timestamp a \<notin> existingTimestamps) currentPageActions
         in if newActions \<noteq> [] then accumulated @ newActions else accumulated)
      else accumulated)"

record change_info =
  ci_status :: "jsstring option"
  ci_url :: "jsstring option"

record nav_env =
  nav_get :: "jsstring option"
  nav_remove :: "jsstring option"

definition onTabUpdated :: "int \<Rightarrow> change_info \<Rightarrow> nav_env \<Rightarrow> world \<Rightarrow> world" where
  "onTabUpdated tabId changeInfo env w =
     (if currentTabId (state w) = Some tabId \<and> isRecording (state w) \<and>
         ci_status changeInfo = Some (lit ''loading'') \<and> truthy_opt (ci_url changeInfo)
      then
        let w1 = log_call SessionGet w;
            currentPageActions = readCurrentPageActions (nav_get env) (session_actions w1);
            w2 = w1\<lparr>state := (state w1)\<lparr>
                   accumulatedActions :=
                     mergeBeforeNavigation (accumulatedActions (state w1)) currentPageActions,
                   actionCache := []\<rparr>\<rparr>;
            w3 = log_call SessionRemove w2
        in case nav_remove env of
             Some _ \<Rightarrow> w3
           | None \<Rightarrow> w3\<lparr>session_actions := None\<rparr>
      else w)"

definition onTabRemoved :: "int \<Rightarrow> world \<Rightarrow> world" where
  "onTabRemoved tabId w =
     (if currentTabId (state w) = Some tabId \<and> isRecording (state w)
      then broadcastStatusUpdate (resetState w) else w)"

definition pollTick :: "jsstring option \<Rightarrow> world \<Rightarrow> world" where
  "pollTick err w =
     (if \<not> pollingInterval (state w) then w
      else if \<not> isRecording (state w) \<or> falsy_num (currentTabId (state w)) then w
      else
        let w1 = log_call SessionGet w
        in case err of
             Some _ \<Rightarrow> w1
           | None \<Rightarrow>
               (case session_actions w1 of
                  None \<Rightarrow> w1
                | Some xs \<Rightarrow> w1\<lparr>state := (state w1)\<lparr>actionCache := xs\<rparr>\<rparr>))"

definition handleGetStatus :: "world \<Rightarrow> MessageResponse" where
  "handleGetStatus w =
     (let s = state w;
          totalActions = length (accumulatedActions s) + length (actionCache s)
      in Success (StatusData (recordingState s)
           (if isRecording s \<and> truthy_opt (testName s) \<and> \<not> falsy_num (startTime s)
            then Some (StatusMetadata (the (testName s)) (the (startTime s)) totalActions)
            else None)))"

subsection \<open>Runs of the coordinator\<close>

datatype event =
    StartRecording jsstring start_env
  | StopRecording stop_env
  | PauseRecording "unit reply"
  | ResumeRecording "unit reply"
  | SyncAction "action option" sync_env
  | SaveCurrentState "action list option reply"
  | TabUpdated int change_info nav_env
  | TabRemoved int
  | PollTick "jsstring option"

fun step :: "world \<Rightarrow> event \<Rightarrow> world" where
  "step w (StartRecording name env) = snd (handleStartRecording name env w)"
| "step w (StopRecording env) = snd (handleStopRecording env w)"
| "step w (PauseRecording send) = snd (handlePauseRecording send w)"
| "step w (ResumeRecording send) = snd (handleResumeRecording send w)"
| "step w (SyncAction payload env) = snd (handleSyncAction payload env w)"
| "step w (SaveCurrentState send) = snd (handleSaveCurrentState send w)"
| "step w (TabUpdated tabId changeInfo env) = onTabUpdated tabId changeInfo env w"
| "step w (TabRemoved tabId) = onTabRemoved tabId w"
| "step w (PollTick err) = pollTick err w"

definition run :: "world \<Rightarrow> event list \<Rightarrow> world" where
  "run w evs = foldl step w evs"

subsection \<open>Sync requests and navigations that overlap\<close>

text \<open>
  The message listener calls \<open>handleSyncAction(...).then(sendResponse)\<close> and returns, and
  the tab listener is itself asynchronous, so a request can arrive while the handler of
  an earlier one is suspended at an \<open>await\<close>.  \<open>handleSyncAction\<close> is suspended at the
  read and at the write of \<open>saveaction_current_actions\<close>, the navigation listener at the
  read and at the removal of that key.  A task is a handler suspended at one of these
  four places, with the local variables it goes on with.
\<close>

datatype task =
    SyncAwaitsGet action sync_env
  | SyncAwaitsSet "action list" sync_env
  | NavAwaitsGet nav_env
  | NavAwaitsRemove nav_env

text \<open>
  How far a piece of a handler gets: to the next \<open>await\<close>, to a \<open>return\<close> with a
  response, or to the end of a listener that answers nothing.
\<close>

datatype progress = Suspended task | Returned MessageResponse | Finished


definition syncAfterGet :: "action \<Rightarrow> sync_env \<Rightarrow> world \<Rightarrow> world \<times> progress" where
  "syncAfterGet a env w =
     (case sync_get env of
        Some msg \<Rightarrow> (w, Returned (Failure msg))
      | None \<Rightarrow>
          (let stored = (case session_actions w of None \<Rightarrow> [] | Some xs \<Rightarrow> xs) @ [a]
           in (log_call (SessionSet stored) w, Suspended (SyncAwaitsSet stored env))))"

definition syncAfterSet :: "action list \<Rightarrow> sync_env \<Rightarrow> world \<Rightarrow> world \<times> progress" where
  "syncAfterSet stored env w =
     (case sync_set env of
        Some msg \<Rightarrow> (w, Returned (Failure msg))
      | None \<Rightarrow> (w\<lparr>session_actions := Some stored\<rparr>, Returned (Success NoData)))"


definition navAfterGet :: "nav_env \<Rightarrow> world \<Rightarrow> world \<times> progress" where
  "navAfterGet env w =
     (let currentPageActions = readCurrentPageActions (nav_get env) (session_actions w);
          w2 = w\<lparr>state := (state w)\<lparr>
                 accumulatedActions :=
                   mergeBeforeNavigation (accumulatedActions (state w)) currentPageActions,
                 actionCache := []\<rparr>\<rparr>
      in (log_call SessionRemove w2, Suspended (NavAwaitsRemove env)))"

definition navAfterRemove :: "nav_env \<Rightarrow> world \<Rightarrow> world \<times> progress" where
  "navAfterRemove env w =
     (case nav_remove env of
        Some _ \<Rightarrow> (w, Finished)
      | None \<Rightarrow> (w\<lparr>session_actions := None\<rparr>, Finished))"

fun resume :: "task \<Rightarrow> world \<Rightarrow> world \<times> progress" where
  "resume (SyncAwaitsGet a env) w = syncAfterGet a env w"
| "resume (SyncAwaitsSet stored env) w = syncAfterSet stored env w"
| "resume (NavAwaitsGet env) w = navAfterGet env w"
| "resume (NavAwaitsRemove env) w = navAfterRemove env w"





subsection \<open>Vocabulary of the properties\<close>









text \<open>The actions \<open>as\<close> with the ids of the counter values \<open>c + 1, c + 2, ...\<close>.\<close>

definition renumbered :: "action list \<Rightarrow> nat \<Rightarrow> action list" where
  "renumbered as c =
     map (\<lambda>(a, n). a\<lparr>act_id := formatActionId n\<rparr>) (zip as [Suc c ..< Suc c + length as])"



text \<open>
  The fixed precedence of the candidates, and whether a strategy holds a non-empty value
  for a candidate.
\<close>

definition precedence :: "jsstring list" where
  "precedence =
     map lit [''id'', ''dataTestId'', ''ariaLabel'', ''name'', ''css'', ''text'',
              ''textContains'', ''xpath'', ''xpathAbsolute'', ''position'']"

definition candidate_populated :: "SelectorStrategy \<Rightarrow> jsstring \<Rightarrow> bool" where
  "candidate_populated s key =
     (if key = lit ''position'' then position s \<noteq> None
      else truthy_opt (string_candidate s key))"

definition nonempty :: "jsstring \<Rightarrow> jsstring option" where
  "nonempty v = (if truthy v then Some v else None)"


definition recording_of :: "MessageResponse \<Rightarrow> recording option" where
  "recording_of res = (case res of Success (RecordingData r) \<Rightarrow> Some r | _ \<Rightarrow> None)"

subsection \<open>Concrete scenarios\<close>

text \<open>Inputs on which the properties below are exercised.\<close>

definition sample_action :: "jsstring \<Rightarrow> int \<Rightarrow> action" where
  "sample_action local_id t =
     \<lparr> act_id = local_id, act_type = lit ''keypress'', timestamp = t,
       act_url = lit ''https://example.com/'', selector = None, act_tagName = None,
       act_text = None, coordinates = None, coordinatesRelativeTo = None, button = None,
       clickCount = None, modifiers = [], act_value = None, inputType = None,
       isSensitive = False, nav_from = None, nav_to = None \<rparr>"

definition sample_start_env :: start_env where
  "sample_start_env = \<lparr> tabs_query = Inr [Some 7], start_now = 1000, start_send = NoReply \<rparr>"

definition sync_ok :: sync_env where
  "sync_ok = \<lparr> sync_get = None, sync_set = None \<rparr>"

definition sync_set_fails :: sync_env where
  "sync_set_fails = \<lparr> sync_get = None, sync_set = Some (lit ''QUOTA_BYTES quota exceeded'') \<rparr>"

definition nav_ok :: nav_env where
  "nav_ok = \<lparr> nav_get = None, nav_remove = None \<rparr>"

definition loading :: change_info where
  "loading = \<lparr> ci_status = Some (lit ''loading''), ci_url = Some (lit ''https://example.com/next'') \<rparr>"

definition sample_iso :: "int \<Rightarrow> jsstring" where
  "sample_iso t = (if t = 1000 then lit ''1970-01-01T00:00:01.000Z'' else lit ''1970-01-01T00:00:09.000Z'')"

definition page_recording :: recording where
  "page_recording =
     \<lparr> rec_id = lit ''rec_1000'', version = lit ''1.0.0'', rec_testName = lit ''Login'',
       rec_url = lit ''https://example.com/'', rec_startTime = lit ''1970-01-01T00:00:01.000Z'',
       endTime = Some (lit ''1970-01-01T00:00:09.000Z''),
       viewport = Some \<lparr> width = 1280, height = 720 \<rparr>,
       userAgent = lit ''Mozilla/5.0'', actions = Some [] \<rparr>"

text \<open>The live page answers \<open>STOP_RECORDING\<close> with its recording.\<close>

definition stop_page_answers :: stop_env where
  "stop_page_answers =
     \<lparr> stop_get = None, stop_send = Reply True (Some page_recording),
       stop_tab = Inr (Some (lit ''https://example.com/'')), stop_now_id = 9000,
       stop_now_end = 9000, stop_save = None, toISOString = sample_iso \<rparr>"

text \<open>The page is unreachable and the tab reports no URL.\<close>

definition stop_page_unreachable :: stop_env where
  "stop_page_unreachable =
     \<lparr> stop_get = None, stop_send = Rejects (lit ''Could not establish connection''),
       stop_tab = Inr None, stop_now_id = 9000,
       stop_now_end = 9000, stop_save = None, toISOString = sample_iso \<rparr>"

text \<open>A host for the scenarios: lower-casing of ASCII letters, names that need no escape.\<close>

definition sample_host :: host where
  "sample_host =
     \<lparr> toLowerCase = ascii_lower, cssEscape = (\<lambda>s. s),
       urlParses = (\<lambda>s. starts_with s (lit ''https://'')),
       dateParses = (\<lambda>s. length s = 24) \<rparr>"

text \<open>The recording stop assembles from its own state when the page is unreachable.\<close>

definition background_recording :: recording where
  "background_recording =
     \<lparr> rec_id = lit ''rec_9000'', version = lit ''1.0.0'', rec_testName = lit ''Login'',
       rec_url = [], rec_startTime = lit ''1970-01-01T00:00:01.000Z'',
       endTime = Some (lit ''1970-01-01T00:00:09.000Z''),
       viewport = Some \<lparr> width = 1920, height = 1080 \<rparr>,
       userAgent = lit ''Mozilla/5.0 (Windows NT 10.0; Win64; x64) AppleWebKit/537.36'',
       actions = Some [] \<rparr>"

definition recording_world :: world where
  "recording_world = snd (handleStartRecording (lit ''Login'') sample_start_env initial_world)"


text \<open>
  A page: \<open>html > body > form#login-form > button#login-btn\<close>, and next to the form a
  \<open>div\<close> with a framework-generated id and the role of a button.
\<close>

definition plain_node :: "nat \<Rightarrow> string \<Rightarrow> node" where
  "plain_node r tag =
     \<lparr> ref = r, iface = OtherHTMLElement, tagName = lit tag, el_id = [], attributes = [],
       el_name = [], el_type = [], href = [], classList = [], textContent = Some [],
       cursor = lit ''auto'', isBody = False, isDocumentElement = False, children = [] \<rparr>"

definition html_element :: element where
  "html_element =
     Element ((plain_node 1 ''HTML'')\<lparr>isDocumentElement := True,
                children := [(2, lit ''BODY'')]\<rparr>) None"

definition body_element :: element where
  "body_element =
     Element ((plain_node 2 ''BODY'')\<lparr>isBody := True,
                children := [(3, lit ''FORM''), (6, lit ''DIV'')]\<rparr>) (Some html_element)"

definition form_element :: element where
  "form_element =
     Element ((plain_node 3 ''FORM'')\<lparr>el_id := lit ''login-form'',
                children := [(4, lit ''INPUT''), (5, lit ''BUTTON'')]\<rparr>) (Some body_element)"

definition login_button :: element where
  "login_button =
     Element ((plain_node 5 ''BUTTON'')\<lparr>el_id := lit ''login-btn'', el_type := lit ''submit'',
                classList := [lit ''btn'', lit ''btn-primary''],
                textContent := Some (lit ''Sign in'')\<rparr>) (Some form_element)"

definition react_div :: element where
  "react_div =
     Element ((plain_node 6 ''DIV'')\<lparr>el_id := lit ''react-48213'',
                attributes := [(lit ''role'', lit ''button'')],
                classList := [lit ''menu-item''],
                textContent := Some (lit '' Settings '')\<rparr>) (Some body_element)"

definition sample_config :: SelectorConfig where
  "sample_config = \<lparr> maxCssDepth = 5, includeXPath = True, includePosition = True \<rparr>"

definition sample_deps :: capture_deps where
  "sample_deps =
     \<lparr> dep_host = sample_host, dep_config = sample_config,
       generateActionId = (\<lambda>n. lit ''local_'' @ string_of_nat n) \<rparr>"

definition listening :: EventListener where
  "listening = \<lparr> isListening = True, lastClickTarget = None, lastClickTime = 0,
                 actionSequence = 0 \<rparr>"

definition mouse_at :: "element \<Rightarrow> MouseEvent" where
  "mouse_at el =
     \<lparr> target = el, clientX = 110, clientY = 215, ev_button = 0, ctrlKey = False,
       shiftKey = False, altKey = False, metaKey = False \<rparr>"

definition at_time :: "int \<Rightarrow> click_env" where
  "at_time t =
     \<lparr> now_check = t, now_action = t, location_href = lit ''https://example.com/login'',
       rect_left = 100, rect_top = 200 \<rparr>"

text \<open>An input action on an e-mail field, flagged sensitive by its producer or not.\<close>

definition email_selector :: SelectorStrategy where
  "email_selector =
     \<lparr> sel_id = Some (lit ''email''), dataTestId = None, ariaLabel = None,
       sel_name = Some (lit ''email''), css = Some (lit ''input[type=\"email\"]''),
       sel_text = None, textContains = None, xpath = None, xpathAbsolute = None,
       position = None, priority = [lit ''id'', lit ''name'', lit ''css''] \<rparr>"

definition email_action :: "bool \<Rightarrow> action" where
  "email_action flagged =
     (sample_action (lit ''act_001'') 5)
       \<lparr> act_type := lit ''input'', selector := Some email_selector,
         act_tagName := Some (lit ''input''),
         act_value := Some (lit ''jane.doe@example.com''),
         inputType := Some (lit ''email''), isSensitive := flagged \<rparr>"

text \<open>A recording with no id, a viewport of width 0 and an action without URL.\<close>

definition bad_recording :: recording where
  "bad_recording =
     page_recording\<lparr> rec_id := [], viewport := Some \<lparr> width = 0, height = 720 \<rparr>,
       actions := Some [(sample_action (lit ''act_001'') 5)\<lparr>act_url := []\<rparr>] \<rparr>"

text \<open>Outside a recording the in-memory state is the initial one.\<close>

definition idle_is_initial :: "world \<Rightarrow> bool" where
  "idle_is_initial w = (isRecording (state w) \<or> state w = initial_state)"

section \<open>Properties\<close>

subsection \<open>Evaluation of the scenarios\<close>

lemmas scenario_defs = initial_world_def initial_state_def sample_start_env_def
  sample_action_def sync_ok_def sync_set_fails_def nav_ok_def loading_def page_recording_def
  stop_page_answers_def stop_page_unreachable_def sample_iso_def background_recording_def lit_def

lemmas handler_defs = handlePauseRecording_def handleResumeRecording_def handleStartRecording_def
  handleStopRecording_def handleSyncAction_def handleSaveCurrentState_def onTabUpdated_def
  onTabRemoved_def pollTick_def resetState_def broadcastStatusUpdate_def startActionPolling_def
  stopActionPolling_def saveRecording_def readCurrentPageActions_def finishStop_def
  buildFromBackgroundState_def mergeBeforeNavigation_def log_call_def recordingState_def
  falsy_num_def truthy_def truthy_opt_def valid_time_value_def Let_def run_def

lemma formatActionId_small:
  "formatActionId (Suc 0) = lit ''act_001''"
  "formatActionId (Suc (Suc 0)) = lit ''act_002''"
  "formatActionId (Suc (Suc (Suc 0))) = lit ''act_003''"
  "formatActionId (Suc (Suc (Suc (Suc 0)))) = lit ''act_004''"
  by (simp_all add: formatActionId_def padStart0_def string_of_nat.simps lit_def numeral_2_eq_2)

lemma recording_world_eq:
  "recording_world =
     \<lparr> state = \<lparr> isRecording = True, isPaused = False, testName = Some (lit ''Login''),
                 currentTabId = Some 7, startTime = Some 1000, metadata = None,
                 accumulatedActions = [], actionCache = [], pollingInterval = True,
                 actionCounter = 0 \<rparr>,
       session_actions = None, recording_ids = [], recordings = (\<lambda>_. None),
       calls = [TabsQuery, TabsSendMessage 7 (lit ''START_RECORDING''),
                RuntimeSendMessage (lit ''recording'')] \<rparr>"
  by (simp add: recording_world_def handler_defs scenario_defs)

subsection \<open>Phase-mismatched operations\<close>

text \<open>
  C6.  A pause while idle fails with the error for an invalid transition and a start
  while a recording is in progress fails with the error for an already running
  recording; both leave the coordinator, its storage and its call log exactly as they
  were.  A pause or resume whose message to the capture engine is rejected fails (with
  the failure of the send once the phase and the tab allowed sending) and leaves the
  whole in-memory session state, \<open>isPaused\<close> included, unchanged.
\<close>

theorem C6_phase_mismatch_no_state_change:
  "(\<not> isRecording (state w) \<longrightarrow>
      handlePauseRecording send w = (Failure (lit ''No active recording to pause''), w)) \<and>
   (isRecording (state w) \<longrightarrow>
      handleStartRecording name env w = (Failure (lit ''Recording is already in progress''), w)) \<and>
   (\<exists>e. fst (handlePauseRecording (Rejects msg) w) = Failure e) \<and>
   state (snd (handlePauseRecording (Rejects msg) w)) = state w \<and>
   (\<exists>e. fst (handleResumeRecording (Rejects msg) w) = Failure e) \<and>
   state (snd (handleResumeRecording (Rejects msg) w)) = state w \<and>
   (isRecording (state w) \<and> \<not> isPaused (state w) \<and> \<not> falsy_num (currentTabId (state w)) \<longrightarrow>
      fst (handlePauseRecording (Rejects msg) w) =
        Failure (lit ''Failed to pause recording: '' @ msg)) \<and>
   (isRecording (state w) \<and> isPaused (state w) \<and> \<not> falsy_num (currentTabId (state w)) \<longrightarrow>
      fst (handleResumeRecording (Rejects msg) w) =
        Failure (lit ''Failed to resume recording: '' @ msg))"
  by (simp add: handlePauseRecording_def handleResumeRecording_def handleStartRecording_def
      log_call_def Let_def)

theorem C6_phase_mismatch_witness:
  "handlePauseRecording NoReply initial_world =
     (Failure (lit ''No active recording to pause''), initial_world) \<and>
   handleStartRecording (lit ''Again'') sample_start_env recording_world =
     (Failure (lit ''Recording is already in progress''), recording_world) \<and>
   fst (handlePauseRecording (Rejects (lit ''no receiver'')) recording_world) =
     Failure (lit ''Failed to pause recording: '' @ lit ''no receiver'') \<and>
   state (snd (handlePauseRecording (Rejects (lit ''no receiver'')) recording_world)) =
     state recording_world"
  using C6_phase_mismatch_no_state_change
          [of initial_world NoReply "lit ''Again''" sample_start_env "lit ''no receiver''"]
        C6_phase_mismatch_no_state_change
          [of recording_world NoReply "lit ''Again''" sample_start_env "lit ''no receiver''"]
  by (simp add: recording_world_eq initial_world_def initial_state_def falsy_num_def)

subsection \<open>Sequential ids\<close>

lemma renumbered_Nil [simp]: "renumbered [] c = []"
  by (simp add: renumbered_def)

lemma renumbered_Cons:
  "renumbered (a # as) c = a\<lparr>act_id := formatActionId (Suc c)\<rparr> # renumbered as (Suc c)"
proof -
  have "[Suc c ..< Suc c + length (a # as)] = Suc c # [Suc (Suc c) ..< Suc (Suc c) + length as]"
    by (subst upt_conv_Cons) simp_all
  then show ?thesis by (simp add: renumbered_def)
qed

lemma timestamp_renumbered [simp]: "map timestamp (renumbered as c) = map timestamp as"
proof (induction as arbitrary: c)
  case Nil
  show ?case by simp
next
  case (Cons a as)
  then show ?case by (simp add: renumbered_Cons)
qed






lemma merge_eq:
  "mergeBeforeNavigation acc cur =
     acc @ filter (\<lambda>a. timestamp a \<notin> set (map timestamp acc)) cur"
  by (simp add: mergeBeforeNavigation_def Let_def)





















subsection \<open>Navigation merge\<close>

lemma merge_idem:
  "mergeBeforeNavigation (mergeBeforeNavigation acc cur) cur = mergeBeforeNavigation acc cur"
  by (auto simp add: merge_eq filter_empty_conv)

lemma merge_keeps_present:
  "t \<in> set (map timestamp acc) \<Longrightarrow>
     filter (\<lambda>a. timestamp a = t) (mergeBeforeNavigation acc cur) =
     filter (\<lambda>a. timestamp a = t) acc"
  by (auto simp add: merge_eq filter_empty_conv)

lemma onTabUpdated_merges:
  assumes "currentTabId (state w) = Some tabId" "isRecording (state w)"
    "ci_status ci = Some (lit ''loading'')" "truthy_opt (ci_url ci)"
  shows "accumulatedActions (state (onTabUpdated tabId ci env w)) =
           mergeBeforeNavigation (accumulatedActions (state w))
             (readCurrentPageActions (nav_get env) (session_actions w))"
  using assms by (simp add: onTabUpdated_def log_call_def Let_def split: option.splits)

text \<open>
  C2 (as amended).  The navigation-start merge appends exactly those actions of the
  per-page cache whose timestamp does not occur among the accumulated actions; it is
  what the navigation listener assigns to \<open>accumulatedActions\<close>.  Hence an action that is
  already accumulated (for instance through the pre-unload flush) is not added again
  when the cache reports its timestamp, and merging the same cache a second time changes
  nothing.  The cache is not deduplicated against itself.
\<close>

theorem C2_merge_dedup_idempotent:
  "mergeBeforeNavigation acc cur =
     acc @ filter (\<lambda>a. timestamp a \<notin> set (map timestamp acc)) cur \<and>
   mergeBeforeNavigation (mergeBeforeNavigation acc cur) cur = mergeBeforeNavigation acc cur \<and>
   (t \<in> set (map timestamp acc) \<longrightarrow>
      filter (\<lambda>a. timestamp a = t) (mergeBeforeNavigation acc cur) =
      filter (\<lambda>a. timestamp a = t) acc) \<and>
   (currentTabId (state w) = Some tabId \<and> isRecording (state w) \<and>
    ci_status ci = Some (lit ''loading'') \<and> truthy_opt (ci_url ci) \<longrightarrow>
      accumulatedActions (state (onTabUpdated tabId ci env w)) =
        mergeBeforeNavigation (accumulatedActions (state w))
          (readCurrentPageActions (nav_get env) (session_actions w)))"
  using merge_eq merge_idem merge_keeps_present onTabUpdated_merges by blast

text \<open>
  The flush reports the action with timestamp 5 under its local id; the cache holds it
  under \<open>act_001\<close> together with a later action.  After the navigation the timestamp 5
  occurs once.
\<close>

theorem C2_merge_witness:
  "map (\<lambda>a. (act_id a, timestamp a))
     (accumulatedActions (state (onTabUpdated 7 loading nav_ok
        (run recording_world
           [SyncAction (Some (sample_action (lit ''local_1'') 5)) sync_ok,
            SyncAction (Some (sample_action (lit ''local_2'') 6)) sync_ok,
            SaveCurrentState (Reply True (Some (Some [sample_action (lit ''local_1'') 5])))]))))
   = [(lit ''local_1'', 5), (lit ''act_002'', 6)]"
  using C2_merge_dedup_idempotent
    [of "[sample_action (lit ''local_1'') 5]"
        "[sample_action (lit ''act_001'') 5, sample_action (lit ''act_002'') 6]" 5
        "run recording_world
           [SyncAction (Some (sample_action (lit ''local_1'') 5)) sync_ok,
            SyncAction (Some (sample_action (lit ''local_2'') 6)) sync_ok,
            SaveCurrentState (Reply True (Some (Some [sample_action (lit ''local_1'') 5])))]"
        7 loading nav_ok]
  by (simp add: recording_world_eq handler_defs sample_action_def sync_ok_def nav_ok_def
      loading_def lit_def formatActionId_small)

theorem C2_duplicate_in_cache_counterexample:
  "map (\<lambda>a. (act_id a, timestamp a)) (accumulatedActions (state (run recording_world
      [SyncAction (Some (sample_action (lit ''local_1'') 5)) sync_ok,
       SyncAction (Some (sample_action (lit ''local_1'') 5)) sync_ok,
       TabUpdated 7 loading nav_ok]))) = [(lit ''act_001'', 5), (lit ''act_002'', 5)]"
  by (simp add: recording_world_eq handler_defs sample_action_def sync_ok_def nav_ok_def
      loading_def lit_def formatActionId_small)

subsection \<open>stop\<close>

lemma recording_of_Some:
  "recording_of res = Some r \<longleftrightarrow> res = Success (RecordingData r)"
  by (auto simp: recording_of_def split: MessageResponse.splits response_data.splits)






text \<open>
  With no earlier page, two actions synced against the order of their timestamps and
  the live page answering the stop request, the recording has the actions as stored;
  were the page unreachable, the same actions would come out sorted.
\<close>

lemma stop_on_first_page_keeps_stored_order:
  "map_option (map timestamp)
     (Option.bind (recording_of (fst (handleStopRecording stop_page_answers
        (run recording_world
          [SyncAction (Some (sample_action (lit ''local_1'') 6)) sync_ok,
           SyncAction (Some (sample_action (lit ''local_2'') 5)) sync_ok])))) actions)
   = Some [6, 5] \<and>
   map_option (map timestamp)
     (Option.bind (recording_of (fst (handleStopRecording stop_page_unreachable
        (run recording_world
          [SyncAction (Some (sample_action (lit ''local_1'') 6)) sync_ok,
           SyncAction (Some (sample_action (lit ''local_2'') 5)) sync_ok])))) actions)
   = Some [5, 6]"
  by (simp add: recording_world_eq handler_defs sample_action_def sync_ok_def lit_def
      formatActionId_small recording_of_def stop_page_answers_def stop_page_unreachable_def
      page_recording_def)

subsection \<open>stop and the validator\<close>

lemma finish_calls:
  "finishStop r e w = (res, w') \<Longrightarrow>
     calls w' = calls w @ [SaveRecording r, RuntimeSendMessage (lit ''idle'')] \<and>
     state w' = initial_state \<and> res = Success (RecordingData r) \<and>
     (e = None \<longrightarrow> recordings w' (rec_id r) = Some r)"
  by (auto simp add: finishStop_def saveRecording_def Let_def log_call_def
      broadcastStatusUpdate_def resetState_def recordingState_def initial_state_def
      split: option.splits)

lemma build_calls:
  assumes "buildFromBackgroundState tabId cur env w = (res, w')"
  shows "\<exists>new. calls w' = calls w @ new \<and> (\<forall>q. ValidateRecording q \<notin> set new) \<and>
          (\<forall>r. res = Success (RecordingData r) \<longrightarrow>
             SaveRecording r \<in> set new \<and> state w' = initial_state \<and>
             (stop_save env = None \<longrightarrow> recordings w' (rec_id r) = Some r))"
proof (cases "\<not> truthy_opt (testName (state w)) \<or> falsy_num (startTime (state w))")
  case True
  with assms show ?thesis by (auto simp: buildFromBackgroundState_def resetState_def)
next
  case False
  show ?thesis
  proof (cases "valid_time_value (the (startTime (state w)))")
    case f: False
    with False assms show ?thesis
      by (auto simp: buildFromBackgroundState_def resetState_def log_call_def Let_def)
  next
    case t: True
    let ?w1 = "log_call (TabsGet tabId) w"
    from False t assms obtain r where f: "finishStop r (stop_save env) ?w1 = (res, w')"
      by (auto simp: buildFromBackgroundState_def Let_def log_call_def)
    from finish_calls[OF f] show ?thesis
      by (auto simp: log_call_def)
  qed
qed

text \<open>
  C4 (as amended).  Stop makes no call to the recording validator, whatever its input.
  Whenever it returns a recording, it has handed exactly that recording to
  \<open>saveRecording\<close> (which stores it under its id unless the write fails) and has reset
  the in-memory session state to the initial, idle one.
\<close>

theorem C4_stop_persists_without_validation:
  "\<exists>new. calls (snd (handleStopRecording env w)) = calls w @ new \<and>
      (\<forall>q. ValidateRecording q \<notin> set new) \<and>
      (\<forall>r. recording_of (fst (handleStopRecording env w)) = Some r \<longrightarrow>
         SaveRecording r \<in> set new \<and>
         state (snd (handleStopRecording env w)) = initial_state \<and>
         (stop_save env = None \<longrightarrow>
            recordings (snd (handleStopRecording env w)) (rec_id r) = Some r))"
proof -
  obtain res w' where rw: "handleStopRecording env w = (res, w')" by (cases "handleStopRecording env w")
  have "\<exists>new. calls w' = calls w @ new \<and> (\<forall>q. ValidateRecording q \<notin> set new) \<and>
          (\<forall>r. res = Success (RecordingData r) \<longrightarrow> SaveRecording r \<in> set new \<and> state w' = initial_state
              \<and> (stop_save env = None \<longrightarrow> recordings w' (rec_id r) = Some r))"
  proof (cases "\<not> isRecording (state w) \<or> falsy_num (currentTabId (state w))")
    case True
    with rw show ?thesis by (auto simp: handleStopRecording_def resetState_def split: if_splits)
  next
    case False
    let ?cur = "readCurrentPageActions (stop_get env) (session_actions w)"
    let ?tab = "the (currentTabId (state w))"
    let ?w2 = "log_call (TabsSendMessage ?tab (lit ''STOP_RECORDING''))
                 (log_call SessionGet (stopActionPolling w))"
    have c2: "calls ?w2 = calls w @ [SessionGet, TabsSendMessage ?tab (lit ''STOP_RECORDING'')]"
      by (simp add: log_call_def stopActionPolling_def)
    have ses: "session_actions (log_call SessionGet (stopActionPolling w)) = session_actions w"
      by (simp add: log_call_def stopActionPolling_def)
    have "(\<exists>r. handleStopRecording env w = finishStop r (stop_save env) ?w2) \<or>
          handleStopRecording env w = buildFromBackgroundState ?tab ?cur env ?w2"
      using False ses
      by (auto simp add: handleStopRecording_def Let_def split: reply.splits bool.splits option.splits)
    then show ?thesis
    proof
      assume "\<exists>r. handleStopRecording env w = finishStop r (stop_save env) ?w2"
      then obtain r where "finishStop r (stop_save env) ?w2 = (res, w')" using rw by auto
      from finish_calls[OF this] c2 show ?thesis by auto
    next
      assume "handleStopRecording env w = buildFromBackgroundState ?tab ?cur env ?w2"
      then have "buildFromBackgroundState ?tab ?cur env ?w2 = (res, w')" using rw by simp
      from build_calls[OF this] c2 show ?thesis by auto
    qed
  qed
  then show ?thesis using rw by (simp add: recording_of_Some)
qed

lemma unreachable_stop:
  "handleStopRecording stop_page_unreachable recording_world =
     (Success (RecordingData background_recording),
      recording_world\<lparr> state := initial_state,
        recording_ids := [lit ''rec_9000''],
        recordings := (\<lambda>_. None)(lit ''rec_9000'' \<mapsto> background_recording),
        calls := calls recording_world @
          [SessionGet, TabsSendMessage 7 (lit ''STOP_RECORDING''), TabsGet 7,
           SaveRecording background_recording, RuntimeSendMessage (lit ''idle'')] \<rparr>)"
  by (simp add: recording_world_eq handler_defs stop_page_unreachable_def sample_iso_def
      background_recording_def string_of_int_def string_of_nat.simps lit_def initial_state_def)

theorem C4_stop_witness:
  "recording_of (fst (handleStopRecording stop_page_unreachable recording_world)) =
     Some background_recording \<and>
   SaveRecording background_recording \<in>
     set (calls (snd (handleStopRecording stop_page_unreachable recording_world))) \<and>
   state (snd (handleStopRecording stop_page_unreachable recording_world)) = initial_state \<and>
   recordings (snd (handleStopRecording stop_page_unreachable recording_world))
     (rec_id background_recording) = Some background_recording"
  using C4_stop_persists_without_validation [of stop_page_unreachable recording_world]
  by (simp add: unreachable_stop recording_of_def background_recording_def lit_def)

text \<open>
  The page is unreachable and the tab reports no URL: stop persists and returns a
  recording with an empty URL.  No call to the validator was made, and the validator
  rejects that recording.
\<close>

theorem C4_not_validated_counterexample:
  "fst (handleStopRecording stop_page_unreachable recording_world) =
     Success (RecordingData background_recording) \<and>
   SaveRecording background_recording \<in>
     set (calls (snd (handleStopRecording stop_page_unreachable recording_world))) \<and>
   ValidateRecording background_recording \<notin>
     set (calls (snd (handleStopRecording stop_page_unreachable recording_world))) \<and>
   recordings (snd (handleStopRecording stop_page_unreachable recording_world))
     (rec_id background_recording) = Some background_recording \<and>
   isValid (validateRecording sample_host background_recording) = False \<and>
   errors (validateRecording sample_host background_recording) =
     [verr ''recording.url'' ''Recording URL is required'']"
  unfolding unreachable_stop
  by (simp add: recording_world_eq validateRecording_def mk_result_def verr_def
      background_recording_def truthy_def truthy_opt_def viewport_errors_def sample_host_def
      lit_def trim_def is_space_def enumerate_eq_zip)

subsection \<open>start after an earlier session\<close>

text \<open>
  C5.  Neither stop nor start clears the durable per-page cache
  \<open>saveaction_current_actions\<close>; only a navigation does.  After a first session with one
  synced action has been stopped, a second start finds that action still in the cache,
  and the first action synced in the new session is stored behind it, both under
  \<open>act_001\<close>.
\<close>

theorem C5_stale_cache_after_restart:
  "map_option (map (\<lambda>a. (act_id a, timestamp a)))
     (session_actions (run initial_world
        [StartRecording (lit ''Login'') sample_start_env,
         SyncAction (Some (sample_action (lit ''local_1'') 5)) sync_ok,
         StopRecording stop_page_unreachable,
         StartRecording (lit ''Checkout'') sample_start_env]))
     = Some [(lit ''act_001'', 5)] \<and>
   map_option (map (\<lambda>a. (act_id a, timestamp a)))
     (session_actions (run initial_world
        [StartRecording (lit ''Login'') sample_start_env,
         SyncAction (Some (sample_action (lit ''local_1'') 5)) sync_ok,
         StopRecording stop_page_unreachable,
         StartRecording (lit ''Checkout'') sample_start_env,
         SyncAction (Some (sample_action (lit ''local_1'') 20)) sync_ok]))
     = Some [(lit ''act_001'', 5), (lit ''act_001'', 20)]"
  by (simp add: handler_defs scenario_defs formatActionId_small string_of_int_def string_of_nat.simps)

subsection \<open>The in-memory state outside a recording\<close>

lemma build_state:
  "state (snd (buildFromBackgroundState tabId cur env w)) = initial_state"
  by (simp add: buildFromBackgroundState_def finishStop_def resetState_def
      broadcastStatusUpdate_def log_call_def Let_def)

lemma stop_state:
  "state (snd (handleStopRecording env w)) =
     (if isRecording (state w) then initial_state else state w)"
  by (simp add: handleStopRecording_def build_state finishStop_def resetState_def
      broadcastStatusUpdate_def log_call_def Let_def
      split: reply.splits bool.splits option.splits)

lemma step_idle_is_initial: "idle_is_initial w \<Longrightarrow> idle_is_initial (step w ev)"
proof (cases ev)
  case (StopRecording env)
  assume "idle_is_initial w"
  then show ?thesis using StopRecording by (auto simp: idle_is_initial_def stop_state)
next
  case (StartRecording name env)
  assume "idle_is_initial w"
  then show ?thesis using StartRecording
    by (auto simp: idle_is_initial_def handleStartRecording_def resetState_def log_call_def Let_def
     broadcastStatusUpdate_def startActionPolling_def initial_state_def
       split: sum.splits list.splits reply.splits)
qed (auto simp: idle_is_initial_def handler_defs initial_state_def split: reply.splits option.splits bool.splits)

lemma run_snoc: "run w (evs @ [ev]) = step (run w evs) ev"
  by (simp add: run_def)

lemma run_idle_is_initial: "idle_is_initial (run initial_world evs)"
proof (induction evs rule: rev_induct)
  case Nil
  show ?case by (simp add: run_def idle_is_initial_def initial_world_def)
next
  case (snoc ev evs)
  then show ?case by (simp add: run_snoc step_idle_is_initial)
qed

text \<open>
  The in-memory part of a start is as the specification has it: a start that succeeds
  from any reachable idle state leaves the counter at 0 and no accumulated action.
\<close>

lemma start_from_idle_is_fresh:
  assumes "\<not> isRecording (state (run initial_world evs))"
    and "isRecording (state (snd (handleStartRecording name env (run initial_world evs))))"
  shows "actionCounter (state (snd (handleStartRecording name env (run initial_world evs)))) = 0 \<and>
         accumulatedActions (state (snd (handleStartRecording name env (run initial_world evs)))) = []"
proof -
  have i: "state (run initial_world evs) = initial_state"
    using run_idle_is_initial [of evs] assms(1) by (simp add: idle_is_initial_def)
  show ?thesis
    using assms(2) i
    by (auto simp add: handleStartRecording_def resetState_def log_call_def Let_def
        broadcastStatusUpdate_def startActionPolling_def initial_state_def
        split: sum.splits list.splits reply.splits if_splits)
qed

subsection \<open>Sanitization of e-mail values\<close>

lemma js_includes_single: "js_includes v [c] \<longleftrightarrow> c \<in> set v"
  by (induction v) (auto simp: neq_Nil_conv)

lemma indexOf_takeWhile:
  "indexOf v c = (if c \<in> set v then int (length (takeWhile (\<lambda>x. x \<noteq> c) v)) else -1)"
  by (induction v) (auto simp: Let_def)

lemma maskEmail_eq:
  assumes "64 \<in> set v"
  shows "maskEmail v =
     take 2 (takeWhile (\<lambda>c. c \<noteq> 64) v) @
     replicate (length (takeWhile (\<lambda>c. c \<noteq> 64) v) - 2) bullet @
     dropWhile (\<lambda>c. c \<noteq> 64) v"
proof -
  let ?l = "takeWhile (\<lambda>c. c \<noteq> 64) v"
  have i: "indexOf v 64 = int (length ?l)" using assms by (simp add: indexOf_takeWhile)
  have t: "take (length ?l) v = ?l" by (metis takeWhile_eq_take)
  have d: "drop (length ?l) v = dropWhile (\<lambda>c. c \<noteq> 64) v" by (metis dropWhile_eq_drop)
  show ?thesis
  proof (cases "length ?l \<le> 2")
    case True
    then show ?thesis using i by (simp add: maskEmail_def Let_def)
  next
    case False
    then show ?thesis using i t d by (simp add: maskEmail_def Let_def)
  qed
qed

text \<open>
  C7 (as amended).  \<open>sanitizeAction\<close> touches an input action only when its producer
  flagged it sensitive.  For such an action on an \<open>email\<close>-typed field whose name and id
  match no sensitive pattern and whose value contains \<open>@\<close>, the value becomes: the first
  two code units of the local part (the text before the first \<open>@\<close>), one bullet for every
  further code unit of the local part, and everything from the first \<open>@\<close> on unchanged.
  An input action that is not flagged is returned unchanged.
\<close>

theorem C7_email_partial_mask:
  "(act_type a = lit ''input'' \<and> isSensitive a \<and> selector a = Some sel \<and>
    act_value a = Some v \<and> inputType a = Some (lit ''email'') \<and>
    \<not> isSensitiveField h (lit ''email'') (lit ''email'') (or_empty (sel_name sel)) (or_empty (sel_id sel)) \<and>
    64 \<in> set v \<longrightarrow>
      sanitizeAction h a =
        Inr (a\<lparr>act_value := Some
               (take 2 (takeWhile (\<lambda>c. c \<noteq> 64) v) @
                replicate (length (takeWhile (\<lambda>c. c \<noteq> 64) v) - 2) bullet @
                dropWhile (\<lambda>c. c \<noteq> 64) v)\<rparr>)) \<and>
   (\<not> isSensitive a \<longrightarrow> sanitizeAction h a = Inr a)"
  by (auto simp add: sanitizeAction_def sanitizeValue_def Let_def or_empty_def lit_def
      js_includes_single maskEmail_eq)

lemma replicate_numeral: "replicate (numeral k) x = x # replicate (pred_numeral k) x"
  by (simp add: numeral_eq_Suc)

lemma not_sens: "\<not> isSensitiveField sample_host (lit ''email'') (lit ''email'') (lit ''email'') (lit ''email'')"
  by (simp add: isSensitiveField_def sample_host_def ascii_lower_def allPatterns_def lit_def)

theorem C7_email_witness:
  "sanitizeAction sample_host (email_action True) =
     Inr ((email_action True)\<lparr>act_value := Some (lit ''ja'' @ replicate 6 bullet @ lit ''@example.com'')\<rparr>) \<and>
   sanitizeAction sample_host (email_action False) = Inr (email_action False)"
  using C7_email_partial_mask [of "email_action True" email_selector "lit ''jane.doe@example.com''" sample_host]
    C7_email_partial_mask [of "email_action False" email_selector "lit ''jane.doe@example.com''" sample_host]
    not_sens
  by (simp add: email_action_def email_selector_def sample_action_def or_empty_def
      truthy_opt_def lit_def replicate_numeral)

text \<open>
  The e-mail action of the claim, not flagged sensitive, keeps its value in full; flagged,
  its local part \<open>jane.doe\<close> of eight code units keeps two and gets six bullets, not
  eight.
\<close>

theorem C7_email_counterexample:
  "map_sum id act_value (sanitizeAction sample_host (email_action False)) =
     Inr (Some (lit ''jane.doe@example.com'')) \<and>
   map_sum id act_value (sanitizeAction sample_host (email_action True)) =
     Inr (Some (lit ''ja'' @ replicate 6 bullet @ lit ''@example.com'')) \<and>
   lit ''ja'' @ replicate 6 bullet @ lit ''@example.com'' \<noteq>
   lit ''ja'' @ replicate 8 bullet @ lit ''@example.com''"
  by (simp add: sanitizeAction_def sanitizeValue_def not_sens [unfolded lit_def, simplified] maskEmail_eq
      js_includes_single email_action_def email_selector_def sample_action_def truthy_opt_def
      or_empty_def lit_def replicate_numeral bullet_def Let_def)

subsection \<open>Recording validator\<close>

lemma isValid_mk_result [simp]: "isValid (mk_result es) = (es = [])"
  by (simp add: mk_result_def)

lemma errors_mk_result [simp]: "errors (mk_result es) = es"
  by (simp add: mk_result_def)

lemma isValid_validateRecording:
  "isValid (validateRecording h r) = (errors (validateRecording h r) = [])"
  by (simp add: validateRecording_def split del: if_split)

lemma isValid_validateAction:
  "isValid (validateAction a) = (errors (validateAction a) = [])"
  by (simp add: validateAction_def split del: if_split)

lemma action_errors_in_recording:
  assumes "actions r = Some as" "i < length as" "e \<in> set (errors (validateAction (as ! i)))"
  shows "\<lparr> field = lit ''actions['' @ string_of_nat i @ lit ''].'' @ field e, message = message e \<rparr>
           \<in> set (errors (validateRecording h r))"
proof -
  have m: "(i, as ! i) \<in> set (enumerate 0 as)"
    using assms(2) by (simp add: in_set_enumerate_eq)
  have nv: "\<not> isValid (validateAction (as ! i))"
    using assms(3) by (auto simp: isValid_validateAction)
  have "\<lparr> field = lit ''actions['' @ string_of_nat i @ lit ''].'' @ field e, message = message e \<rparr>
          \<in> set (indexed_action_errors (i, as ! i))"
    using nv assms(3) by (simp add: indexed_action_errors_def Let_def)
  with m have "\<lparr> field = lit ''actions['' @ string_of_nat i @ lit ''].'' @ field e, message = message e \<rparr>
          \<in> set (concat (map indexed_action_errors (enumerate 0 as)))"
    by (auto intro!: bexI[of _ "(i, as ! i)"])
  then show ?thesis using assms(1) by (simp add: validateRecording_def split del: if_split)
qed

text \<open>
  C10.  The validator is a total function from recordings to results (nothing in it
  throws on a recording of the declared type).  For every recording whose viewport has
  a width or a height that is zero or negative, the result is invalid and its errors
  contain the entry with field \<open>recording.viewport\<close>; and the error of every other
  structural check that fails on the same recording is in the list as well, including
  every error of every action, under the field prefixed with \<open>actions[index].\<close>.
\<close>

theorem C10_viewport_error_accumulated:
  assumes "viewport r = Some v" and "width v \<le> 0 \<or> height v \<le> 0"
  shows "isValid (validateRecording h r) = False \<and>
    verr ''recording.viewport'' ''Viewport width and height must be positive numbers''
      \<in> set (errors (validateRecording h r)) \<and>
    (rec_id r = [] \<longrightarrow>
       verr ''recording.id'' ''Recording ID is required'' \<in> set (errors (validateRecording h r))) \<and>
    (version r = [] \<longrightarrow>
       verr ''recording.version'' ''Schema version is required''
         \<in> set (errors (validateRecording h r))) \<and>
    (trim (rec_testName r) = [] \<longrightarrow>
       verr ''recording.testName'' ''Test name cannot be empty''
         \<in> set (errors (validateRecording h r))) \<and>
    (rec_url r = [] \<longrightarrow>
       verr ''recording.url'' ''Recording URL is required'' \<in> set (errors (validateRecording h r))) \<and>
    (rec_url r \<noteq> [] \<and> \<not> urlParses h (rec_url r) \<longrightarrow>
       verr ''recording.url'' ''Invalid URL format'' \<in> set (errors (validateRecording h r))) \<and>
    (rec_startTime r = [] \<longrightarrow>
       verr ''recording.startTime'' ''Start time is required''
         \<in> set (errors (validateRecording h r))) \<and>
    (rec_startTime r \<noteq> [] \<and> \<not> dateParses h (rec_startTime r) \<longrightarrow>
       verr ''recording.startTime'' ''Start time must be valid ISO 8601 format''
         \<in> set (errors (validateRecording h r))) \<and>
    (truthy_opt (endTime r) \<and> \<not> dateParses h (the (endTime r)) \<longrightarrow>
       verr ''recording.endTime'' ''End time must be valid ISO 8601 format''
         \<in> set (errors (validateRecording h r))) \<and>
    (userAgent r = [] \<longrightarrow>
       verr ''recording.userAgent'' ''User agent is required''
         \<in> set (errors (validateRecording h r))) \<and>
    (actions r = None \<longrightarrow>
       verr ''recording.actions'' ''Actions array is required''
         \<in> set (errors (validateRecording h r))) \<and>
    (\<forall>as i e. actions r = Some as \<and> i < length as \<and>
         e \<in> set (errors (validateAction (as ! i))) \<longrightarrow>
       \<lparr> field = lit ''actions['' @ string_of_nat i @ lit ''].'' @ field e,
         message = message e \<rparr> \<in> set (errors (validateRecording h r)))"
proof -
  let ?E = "errors (validateRecording h r)"
  have vp: "viewport_errors (viewport r) =
      [verr ''recording.viewport'' ''Viewport width and height must be positive numbers'']"
    using assms by (simp add: viewport_errors_def)
  have c1: "verr ''recording.viewport'' ''Viewport width and height must be positive numbers'' \<in> set ?E"
    by (simp add: validateRecording_def vp split del: if_split)
  then have c0: "isValid (validateRecording h r) = False"
    by (auto simp: isValid_validateRecording)
  have c2: "rec_id r = [] \<longrightarrow> verr ''recording.id'' ''Recording ID is required'' \<in> set ?E"
    by (simp add: validateRecording_def truthy_def split del: if_split)
  have c3: "version r = [] \<longrightarrow> verr ''recording.version'' ''Schema version is required'' \<in> set ?E"
    by (simp add: validateRecording_def truthy_def split del: if_split)
  have c4: "trim (rec_testName r) = [] \<longrightarrow>
       verr ''recording.testName'' ''Test name cannot be empty'' \<in> set ?E"
    by (simp add: validateRecording_def truthy_def split del: if_split)
  have c5: "rec_url r = [] \<longrightarrow> verr ''recording.url'' ''Recording URL is required'' \<in> set ?E"
    by (simp add: validateRecording_def truthy_def split del: if_split)
  have c6: "rec_url r \<noteq> [] \<and> \<not> urlParses h (rec_url r) \<longrightarrow>
       verr ''recording.url'' ''Invalid URL format'' \<in> set ?E"
    by (simp add: validateRecording_def truthy_def split del: if_split)
  have c7: "rec_startTime r = [] \<longrightarrow>
       verr ''recording.startTime'' ''Start time is required'' \<in> set ?E"
    by (simp add: validateRecording_def truthy_def split del: if_split)
  have c8: "rec_startTime r \<noteq> [] \<and> \<not> dateParses h (rec_startTime r) \<longrightarrow>
       verr ''recording.startTime'' ''Start time must be valid ISO 8601 format'' \<in> set ?E"
    by (simp add: validateRecording_def truthy_def split del: if_split)
  have c9: "truthy_opt (endTime r) \<and> \<not> dateParses h (the (endTime r)) \<longrightarrow>
       verr ''recording.endTime'' ''End time must be valid ISO 8601 format'' \<in> set ?E"
    by (simp add: validateRecording_def truthy_def split del: if_split)
  have c10: "userAgent r = [] \<longrightarrow>
       verr ''recording.userAgent'' ''User agent is required'' \<in> set ?E"
    by (simp add: validateRecording_def truthy_def split del: if_split)
  have c11: "actions r = None \<longrightarrow>
       verr ''recording.actions'' ''Actions array is required'' \<in> set ?E"
    by (simp add: validateRecording_def truthy_def split del: if_split)
  have c12: "\<forall>as i e. actions r = Some as \<and> i < length as \<and>
         e \<in> set (errors (validateAction (as ! i))) \<longrightarrow>
       \<lparr> field = lit ''actions['' @ string_of_nat i @ lit ''].'' @ field e,
         message = message e \<rparr> \<in> set ?E"
    using action_errors_in_recording by blast
  from c0 c1 c2 c3 c4 c5 c6 c7 c8 c9 c10 c11 c12 show ?thesis
    by (intro conjI) assumption+
qed

lemma trim_Login: "trim (lit ''Login'') \<noteq> []"
  by (simp add: trim_def is_space_def lit_def)

lemma bad_action_errors:
  "errors (validateAction ((sample_action (lit ''act_001'') 5)\<lparr>act_url := []\<rparr>)) =
     [verr ''action.url'' ''Action URL is required'']"
  by (simp add: validateAction_def sample_action_def truthy_def lit_def)

lemma bad_action_invalid:
  "\<not> isValid (validateAction ((sample_action (lit ''act_001'') 5)\<lparr>act_url := []\<rparr>))"
  by (simp add: validateAction_def sample_action_def truthy_def lit_def)

theorem C10_viewport_witness:
  "isValid (validateRecording sample_host bad_recording) = False \<and>
   errors (validateRecording sample_host bad_recording) =
     [verr ''recording.id'' ''Recording ID is required'',
      verr ''recording.viewport'' ''Viewport width and height must be positive numbers'',
      verr ''actions[0].action.url'' ''Action URL is required'']"
proof -
  have h1: "viewport bad_recording = Some \<lparr> width = 0, height = 720 \<rparr>"
    by (simp add: bad_recording_def)
  have h2: "width \<lparr> width = 0, height = 720 \<rparr> \<le> 0 \<or> height \<lparr> width = 0, height = 720 \<rparr> \<le> 0"
    by simp
  have "isValid (validateRecording sample_host bad_recording) = False"
    using C10_viewport_error_accumulated [OF h1 h2, of sample_host] by (rule conjunct1)
  moreover have "errors (validateRecording sample_host bad_recording) =
     [verr ''recording.id'' ''Recording ID is required'',
      verr ''recording.viewport'' ''Viewport width and height must be positive numbers'',
      verr ''actions[0].action.url'' ''Action URL is required'']"
    apply (simp add: bad_recording_def page_recording_def validateRecording_def trim_Login
        bad_action_errors bad_action_invalid viewport_errors_def indexed_action_errors_def
        truthy_def truthy_opt_def enumerate_eq_zip Let_def)
    apply (simp add: sample_host_def verr_def lit_def string_of_nat.simps)
    done
  ultimately show ?thesis by (rule conjI)
qed

subsection \<open>Selector strategy generator\<close>

lemma push_other:
  assumes "\<And>t. F (U t) = F t" and "\<And>t p. F (t\<lparr>priority := p\<rparr>) = F t"
  shows "F (push_candidate c U k s) = F s"
  using assms by (simp add: push_candidate_def)

lemma push_priority:
  assumes "\<And>t. priority (U t) = priority t"
  shows "priority (push_candidate c U k s) = priority s @ (if c then [k] else [])"
  using assms by (simp add: push_candidate_def)

lemma push_own:
  "sel_id (push_candidate c (sel_id_update f) k s) = (if c then f (sel_id s) else sel_id s)"
  "dataTestId (push_candidate c (dataTestId_update f) k s) = (if c then f (dataTestId s) else dataTestId s)"
  "ariaLabel (push_candidate c (ariaLabel_update f) k s) = (if c then f (ariaLabel s) else ariaLabel s)"
  "sel_name (push_candidate c (sel_name_update f) k s) = (if c then f (sel_name s) else sel_name s)"
  "css (push_candidate c (css_update f) k s) = (if c then f (css s) else css s)"
  "sel_text (push_candidate c (sel_text_update f) k s) = (if c then f (sel_text s) else sel_text s)"
  "textContains (push_candidate c (textContains_update f) k s) = (if c then f (textContains s) else textContains s)"
  "xpath (push_candidate c (xpath_update f) k s) = (if c then f (xpath s) else xpath s)"
  "xpathAbsolute (push_candidate c (xpathAbsolute_update f) k s) = (if c then f (xpathAbsolute s) else xpathAbsolute s)"
  "position (push_candidate c (position_update g) k s) = (if c then g (position s) else position s)"
  by (simp_all add: push_candidate_def)

lemmas push_others =
  push_other [where F = sel_id] push_other [where F = dataTestId] push_other [where F = ariaLabel]
  push_other [where F = sel_name] push_other [where F = css] push_other [where F = sel_text]
  push_other [where F = textContains] push_other [where F = xpath]
  push_other [where F = xpathAbsolute] push_other [where F = position]

lemmas field_if =
  if_distrib [of sel_id] if_distrib [of dataTestId] if_distrib [of ariaLabel]
  if_distrib [of sel_name] if_distrib [of css] if_distrib [of sel_text]
  if_distrib [of textContains] if_distrib [of xpath] if_distrib [of xpathAbsolute]
  if_distrib [of position] if_distrib [of priority]

lemma keep_truthy: "(if truthy_opt v then v else None) = or_undefined v"
  by (simp add: or_undefined_def)

lemma or_undefined_None [simp]: "or_undefined None = None"
  by (simp add: or_undefined_def truthy_opt_def)

lemma or_undefined_idem [simp]: "or_undefined (or_undefined v) = or_undefined v"
  by (simp add: or_undefined_def)

lemma id_selector_truthy: "or_undefined (generateIdSelector el) = generateIdSelector el"
  by (simp add: generateIdSelector_def or_undefined_def truthy_opt_def truthy_def Let_def)

lemma name_selector_truthy: "or_undefined (generateNameSelector el) = generateNameSelector el"
  by (simp add: generateNameSelector_def)

lemma text_selector_cases:
  "or_undefined (fst (generateTextSelector el)) = fst (generateTextSelector el)"
  "or_undefined (snd (generateTextSelector el)) = snd (generateTextSelector el)"
  "truthy_opt (fst (generateTextSelector el)) \<Longrightarrow> snd (generateTextSelector el) = None"
  by (auto simp add: generateTextSelector_def or_undefined_def truthy_opt_def truthy_def Let_def
      split: option.splits)

lemma text_contains_if:
  "(if truthy_opt (fst (generateTextSelector el)) then None else snd (generateTextSelector el)) =
     snd (generateTextSelector el)"
  using text_selector_cases(3) [of el] by simp

lemma keep_some: "(if \<exists>y. v = Some y then v else None) = v"
  by (cases v) simp_all

lemma relative_truthy: "truthy (generateRelativeXPath h el)"
  by (simp add: generateRelativeXPath_def truthy_def Let_def lit_def)

lemma absolute_truthy: "truthy (generateAbsoluteXPath h el)"
  by (simp add: generateAbsoluteXPath_def truthy_def lit_def)

lemma gen_fields:
  "sel_id (generateSelectors h cfg el) = generateIdSelector el"
  "dataTestId (generateSelectors h cfg el) = generateDataTestIdSelector el"
  "ariaLabel (generateSelectors h cfg el) = generateAriaLabelSelector el"
  "sel_name (generateSelectors h cfg el) = generateNameSelector el"
  "css (generateSelectors h cfg el) = nonempty (generateCssSelector h cfg el)"
  "sel_text (generateSelectors h cfg el) = fst (generateTextSelector el)"
  "textContains (generateSelectors h cfg el) = snd (generateTextSelector el)"
  "xpath (generateSelectors h cfg el) =
     (if includeXPath cfg then Some (generateRelativeXPath h el) else None)"
  "xpathAbsolute (generateSelectors h cfg el) =
     (if includeXPath cfg then Some (generateAbsoluteXPath h el) else None)"
  "position (generateSelectors h cfg el) =
     (if includePosition cfg then generatePositionSelector h el else None)"
  unfolding generateSelectors_def Let_def
  by (simp_all add: push_others push_own field_if no_selectors_def keep_truthy
      id_selector_truthy name_selector_truthy text_selector_cases text_contains_if keep_some relative_truthy absolute_truthy
      generateDataTestIdSelector_def generateAriaLabelSelector_def nonempty_def
      split del: if_split cong del: if_weak_cong)


lemma filter_as_concat: "filter P xs = concat (map (\<lambda>x. if P x then [x] else []) xs)"
  by (induction xs) simp_all

lemma gen_priority:
  "priority (generateSelectors h cfg el) =
     (if truthy_opt (generateIdSelector el) then [lit ''id''] else []) @
     (if truthy_opt (generateDataTestIdSelector el) then [lit ''dataTestId''] else []) @
     (if truthy_opt (generateAriaLabelSelector el) then [lit ''ariaLabel''] else []) @
     (if truthy_opt (generateNameSelector el) then [lit ''name''] else []) @
     (if truthy (generateCssSelector h cfg el) then [lit ''css''] else []) @
     (if truthy_opt (fst (generateTextSelector el)) then [lit ''text''] else []) @
     (if truthy_opt (snd (generateTextSelector el)) then [lit ''textContains''] else []) @
     (if includeXPath cfg then [lit ''xpath''] else []) @
     (if includeXPath cfg then [lit ''xpathAbsolute''] else []) @
     (if includePosition cfg \<and> generatePositionSelector h el \<noteq> None then [lit ''position''] else [])"
proof -
  define s1 where "s1 = push_candidate (truthy_opt (generateIdSelector el))
      (sel_id_update (\<lambda>_. generateIdSelector el)) (lit ''id'') no_selectors"
  define s2 where "s2 = push_candidate (truthy_opt (generateDataTestIdSelector el))
      (dataTestId_update (\<lambda>_. generateDataTestIdSelector el)) (lit ''dataTestId'') s1"
  define s3 where "s3 = push_candidate (truthy_opt (generateAriaLabelSelector el))
      (ariaLabel_update (\<lambda>_. generateAriaLabelSelector el)) (lit ''ariaLabel'') s2"
  define s4 where "s4 = push_candidate (truthy_opt (generateNameSelector el))
      (sel_name_update (\<lambda>_. generateNameSelector el)) (lit ''name'') s3"
  define s5 where "s5 = push_candidate (truthy (generateCssSelector h cfg el))
      (css_update (\<lambda>_. Some (generateCssSelector h cfg el))) (lit ''css'') s4"
  define s6 where "s6 = (if truthy_opt (fst (generateTextSelector el))
      then push_candidate True (sel_text_update (\<lambda>_. fst (generateTextSelector el))) (lit ''text'') s5
      else push_candidate (truthy_opt (snd (generateTextSelector el)))
             (textContains_update (\<lambda>_. snd (generateTextSelector el))) (lit ''textContains'') s5)"
  define s7 where "s7 = (if includeXPath cfg
      then push_candidate (truthy (generateRelativeXPath h el))
             (xpath_update (\<lambda>_. Some (generateRelativeXPath h el))) (lit ''xpath'') s6
      else s6)"
  define s8 where "s8 = (if includeXPath cfg
      then push_candidate (truthy (generateAbsoluteXPath h el))
             (xpathAbsolute_update (\<lambda>_. Some (generateAbsoluteXPath h el))) (lit ''xpathAbsolute'') s7
      else s7)"
  define s9 where "s9 = (if includePosition cfg
      then push_candidate (generatePositionSelector h el \<noteq> None)
             (position_update (\<lambda>_. generatePositionSelector h el)) (lit ''position'') s8
      else s8)"
  have g: "generateSelectors h cfg el = s9"
    unfolding generateSelectors_def Let_def s1_def s2_def s3_def s4_def s5_def s6_def s7_def
      s8_def s9_def by (rule refl)
  have p1: "priority s1 = (if truthy_opt (generateIdSelector el) then [lit ''id''] else [])"
    by (simp add: s1_def push_priority no_selectors_def)
  have p2: "priority s2 = priority s1 @
      (if truthy_opt (generateDataTestIdSelector el) then [lit ''dataTestId''] else [])"
    by (simp add: s2_def push_priority)
  have p3: "priority s3 = priority s2 @
      (if truthy_opt (generateAriaLabelSelector el) then [lit ''ariaLabel''] else [])"
    by (simp add: s3_def push_priority)
  have p4: "priority s4 = priority s3 @
      (if truthy_opt (generateNameSelector el) then [lit ''name''] else [])"
    by (simp add: s4_def push_priority)
  have p5: "priority s5 = priority s4 @
      (if truthy (generateCssSelector h cfg el) then [lit ''css''] else [])"
    by (simp add: s5_def push_priority)
  have p6: "priority s6 = priority s5 @
      (if truthy_opt (fst (generateTextSelector el)) then [lit ''text''] else []) @
      (if truthy_opt (snd (generateTextSelector el)) then [lit ''textContains''] else [])"
    using text_selector_cases(3) [of el]
    by (cases "truthy_opt (fst (generateTextSelector el))")
       (simp_all add: s6_def push_priority truthy_opt_def)
  have p7: "priority s7 = priority s6 @ (if includeXPath cfg then [lit ''xpath''] else [])"
    by (cases "includeXPath cfg") (simp_all add: s7_def push_priority relative_truthy)
  have p8: "priority s8 = priority s7 @ (if includeXPath cfg then [lit ''xpathAbsolute''] else [])"
    by (cases "includeXPath cfg") (simp_all add: s8_def push_priority absolute_truthy)
  have p9: "priority s9 = priority s8 @
      (if includePosition cfg \<and> generatePositionSelector h el \<noteq> None
       then [lit ''position''] else [])"
    by (cases "includePosition cfg") (simp_all add: s9_def push_priority)
  show ?thesis
    unfolding g p9 p8 p7 p6 p5 p4 p3 p2 p1 by (simp only: append_assoc)
qed

lemma populated_generated:
  "candidate_populated (generateSelectors h cfg el) (lit ''id'') = truthy_opt (generateIdSelector el)"
  "candidate_populated (generateSelectors h cfg el) (lit ''dataTestId'') =
     truthy_opt (generateDataTestIdSelector el)"
  "candidate_populated (generateSelectors h cfg el) (lit ''ariaLabel'') =
     truthy_opt (generateAriaLabelSelector el)"
  "candidate_populated (generateSelectors h cfg el) (lit ''name'') =
     truthy_opt (generateNameSelector el)"
  "candidate_populated (generateSelectors h cfg el) (lit ''css'') =
     truthy (generateCssSelector h cfg el)"
  "candidate_populated (generateSelectors h cfg el) (lit ''text'') =
     truthy_opt (fst (generateTextSelector el))"
  "candidate_populated (generateSelectors h cfg el) (lit ''textContains'') =
     truthy_opt (snd (generateTextSelector el))"
  "candidate_populated (generateSelectors h cfg el) (lit ''xpath'') = includeXPath cfg"
  "candidate_populated (generateSelectors h cfg el) (lit ''xpathAbsolute'') = includeXPath cfg"
  "candidate_populated (generateSelectors h cfg el) (lit ''position'') =
     (includePosition cfg \<and> generatePositionSelector h el \<noteq> None)"
  using relative_truthy [of h el] absolute_truthy [of h el]
  by (simp_all add: candidate_populated_def string_candidate_def gen_fields lit_def nonempty_def
      truthy_opt_def truthy_def)

lemma priority_is_populated:
  "priority (generateSelectors h cfg el) =
     filter (candidate_populated (generateSelectors h cfg el)) precedence"
  unfolding gen_priority filter_as_concat precedence_def
  by (simp add: populated_generated split del: if_split)

lemma not_dynamic_login: "\<not> isDynamicId (lit ''login-btn'')"
  by (simp add: isDynamicId_def lit_def ascii_lower_def is_digit_def is_hex_def)

lemma dynamic_react: "isDynamicId (lit ''react-48213'')"
  by (simp add: isDynamicId_def lit_def ascii_lower_def)

text \<open>
  C9.  For every element, host and configuration, each candidate of the strategy that
  \<open>generateSelectors\<close> returns is the value of its own generator, whatever the other
  candidates are (the XPath and position candidates when the configuration includes
  them), and the priority array lists exactly the candidates that hold a non-empty
  value, in the precedence id, dataTestId, ariaLabel, name, css, text or textContains,
  xpath, xpathAbsolute, position.  An element with the id \<open>login-btn\<close> gets \<open>id\<close> as first
  priority entry; for an element with the id \<open>react-48213\<close> the id candidate is absent and
  the priorities are the populated ones among the remaining candidates.
\<close>

theorem C9_priority_lists_populated_candidates:
  "sel_id (generateSelectors h cfg el) = generateIdSelector el \<and>
   dataTestId (generateSelectors h cfg el) = generateDataTestIdSelector el \<and>
   ariaLabel (generateSelectors h cfg el) = generateAriaLabelSelector el \<and>
   sel_name (generateSelectors h cfg el) = generateNameSelector el \<and>
   css (generateSelectors h cfg el) = nonempty (generateCssSelector h cfg el) \<and>
   sel_text (generateSelectors h cfg el) = fst (generateTextSelector el) \<and>
   textContains (generateSelectors h cfg el) = snd (generateTextSelector el) \<and>
   xpath (generateSelectors h cfg el) =
     (if includeXPath cfg then Some (generateRelativeXPath h el) else None) \<and>
   xpathAbsolute (generateSelectors h cfg el) =
     (if includeXPath cfg then Some (generateAbsoluteXPath h el) else None) \<and>
   position (generateSelectors h cfg el) =
     (if includePosition cfg then generatePositionSelector h el else None) \<and>
   priority (generateSelectors h cfg el) =
     filter (candidate_populated (generateSelectors h cfg el)) precedence \<and>
   (el_id (node_of el) = lit ''login-btn'' \<longrightarrow>
      sel_id (generateSelectors h cfg el) = Some (lit ''login-btn'') \<and>
      priority (generateSelectors h cfg el) \<noteq> [] \<and>
      priority (generateSelectors h cfg el) ! 0 = lit ''id'') \<and>
   (el_id (node_of el) = lit ''react-48213'' \<longrightarrow>
      sel_id (generateSelectors h cfg el) = None \<and>
      lit ''id'' \<notin> set (priority (generateSelectors h cfg el)) \<and>
      priority (generateSelectors h cfg el) =
        filter (candidate_populated (generateSelectors h cfg el)) (tl precedence))"
proof -
  have login: "el_id (node_of el) = lit ''login-btn'' \<Longrightarrow>
      sel_id (generateSelectors h cfg el) = Some (lit ''login-btn'') \<and>
      priority (generateSelectors h cfg el) \<noteq> [] \<and>
      priority (generateSelectors h cfg el) ! 0 = lit ''id''"
  proof -
    assume a: "el_id (node_of el) = lit ''login-btn''"
    have g: "generateIdSelector el = Some (lit ''login-btn'')"
      using a not_dynamic_login by (simp add: generateIdSelector_def Let_def truthy_def lit_def)
    then have t: "truthy_opt (generateIdSelector el)" by (simp add: truthy_opt_def lit_def)
    show ?thesis using g t by (simp add: gen_fields gen_priority)
  qed
  have react: "el_id (node_of el) = lit ''react-48213'' \<Longrightarrow>
      sel_id (generateSelectors h cfg el) = None \<and>
      lit ''id'' \<notin> set (priority (generateSelectors h cfg el)) \<and>
      priority (generateSelectors h cfg el) =
        filter (candidate_populated (generateSelectors h cfg el)) (tl precedence)"
  proof -
    assume a: "el_id (node_of el) = lit ''react-48213''"
    have g: "generateIdSelector el = None"
      using a dynamic_react by (simp add: generateIdSelector_def Let_def)
    have np: "\<not> candidate_populated (generateSelectors h cfg el) (lit ''id'')"
      using g by (simp add: populated_generated truthy_opt_def)
    have p: "priority (generateSelectors h cfg el) =
        filter (candidate_populated (generateSelectors h cfg el)) (tl precedence)"
      using np by (subst priority_is_populated) (simp add: precedence_def)
    have "lit ''id'' \<notin> set (tl precedence)" by (simp add: precedence_def lit_def)
    then have "lit ''id'' \<notin> set (priority (generateSelectors h cfg el))"
      by (subst p) simp
    with g p show ?thesis by (simp add: gen_fields)
  qed
  from login react show ?thesis
    using gen_fields [of h cfg el] priority_is_populated [of h cfg el] by blast
qed

lemmas element_defs = login_button_def react_div_def form_element_def body_element_def
  html_element_def plain_node_def

lemma sample_dynamic_classes:
  "\<not> isDynamicClass (lit ''btn'')" "\<not> isDynamicClass (lit ''btn-primary'')"
  "\<not> isDynamicClass (lit ''menu-item'')" "\<not> isDynamicId (lit ''login-form'')"
  by (simp_all add: isDynamicClass_def isDynamicId_def lit_def ascii_lower_def is_digit_def is_hex_def)

lemma login_button_css:
  "generateCssSelector sample_host sample_config login_button =
     lit ''form#login-form > button.btn.btn-primary''"
  using sample_dynamic_classes [unfolded lit_def, simplified] 
  apply (simp add: generateCssSelector_def element_defs sample_host_def sample_config_def
      getElementSelectorPart_def  truthy_def Let_def ascii_lower_def)
  apply (simp add: sample_dynamic_classes lit_def)
  done

lemma sample_flags: "includeXPath sample_config" "includePosition sample_config"
  by (simp_all add: sample_config_def)

lemma login_button_priority:
  "priority (generateSelectors sample_host sample_config login_button) =
     map lit [''id'', ''css'', ''text'', ''xpath'', ''xpathAbsolute'', ''position'']"
proof -
  have i: "generateIdSelector login_button = Some (lit ''login-btn'')"
    using not_dynamic_login
    by (simp add: generateIdSelector_def element_defs truthy_def Let_def lit_def)
  have c: "truthy (generateCssSelector sample_host sample_config login_button)"
    by (simp add: login_button_css truthy_def lit_def)
  have t: "generateTextSelector login_button = (Some (lit ''Sign in''), None)"
    by (simp add: generateTextSelector_def element_defs trim_def is_space_def truthy_def
        Let_def lit_def)
  have p: "generatePositionSelector sample_host login_button \<noteq> None"
    using sample_dynamic_classes(4)
    by (simp add: generatePositionSelector_def getElementSelectorPart_def element_defs
        sample_host_def ascii_lower_def truthy_def Let_def lit_def)
  have o: "generateDataTestIdSelector login_button = None"
    "generateAriaLabelSelector login_button = None" "generateNameSelector login_button = None"
    by (simp_all add: generateDataTestIdSelector_def generateAriaLabelSelector_def
        generateNameSelector_def getAttribute_def element_defs)
  show ?thesis
    by (simp add: gen_priority i c t p o truthy_opt_def sample_flags lit_def)
qed

lemma react_div_priority:
  "priority (generateSelectors sample_host sample_config react_div) =
     map lit [''css'', ''text'', ''xpath'', ''xpathAbsolute'', ''position'']"
proof -
  have i: "generateIdSelector react_div = None"
    using dynamic_react
    by (simp add: generateIdSelector_def element_defs truthy_def Let_def)
  have c: "generateCssSelector sample_host sample_config react_div = lit ''div.menu-item''"
    using sample_dynamic_classes(3)
    by (simp add: generateCssSelector_def element_defs sample_host_def sample_config_def
        ascii_lower_def Let_def lit_def)
  have t: "generateTextSelector react_div = (Some (lit ''Settings''), None)"
    by (simp add: generateTextSelector_def element_defs trim_def is_space_def truthy_def
        Let_def lit_def)
  have p: "generatePositionSelector sample_host react_div =
             Some \<lparr> pos_parent = lit ''body'', pos_index = 1 \<rparr>"
    by (simp add: generatePositionSelector_def getElementSelectorPart_def element_defs
        sample_host_def ascii_lower_def truthy_def Let_def lit_def)
  have o: "generateDataTestIdSelector react_div = None"
    "generateAriaLabelSelector react_div = None" "generateNameSelector react_div = None"
    by (simp_all add: generateDataTestIdSelector_def generateAriaLabelSelector_def
        generateNameSelector_def getAttribute_def element_defs lit_def)
  show ?thesis
    by (simp add: gen_priority i c t p o truthy_opt_def truthy_def sample_flags lit_def)
qed

theorem C9_priority_witness:
  "priority (generateSelectors sample_host sample_config login_button) ! 0 = lit ''id'' \<and>
   priority (generateSelectors sample_host sample_config login_button) =
     map lit [''id'', ''css'', ''text'', ''xpath'', ''xpathAbsolute'', ''position''] \<and>
   lit ''id'' \<notin> set (priority (generateSelectors sample_host sample_config react_div)) \<and>
   priority (generateSelectors sample_host sample_config react_div) =
     map lit [''css'', ''text'', ''xpath'', ''xpathAbsolute'', ''position'']"
proof -
  have a: "el_id (node_of login_button) = lit ''login-btn''"
    by (simp add: element_defs)
  have b: "el_id (node_of react_div) = lit ''react-48213''"
    by (simp add: element_defs)
  have "priority (generateSelectors sample_host sample_config login_button) ! 0 = lit ''id''"
    using C9_priority_lists_populated_candidates [of sample_host sample_config login_button] a
    by blast
  moreover have "lit ''id'' \<notin> set (priority (generateSelectors sample_host sample_config react_div))"
    using C9_priority_lists_populated_candidates [of sample_host sample_config react_div] b
    by blast
  ultimately show ?thesis using login_button_priority react_div_priority by blast
qed

subsection \<open>Double clicks\<close>

lemma created_type:
  "act_type (fst (createClickAction d env st ev tgt n)) = lit ''click''"
  "clickCount (fst (createClickAction d env st ev tgt n)) = Some n"
  "isListening (snd (createClickAction d env st ev tgt n)) = isListening st"
  "lastClickTarget (snd (createClickAction d env st ev tgt n)) = lastClickTarget st"
  "lastClickTime (snd (createClickAction d env st ev tgt n)) = lastClickTime st"
  by (simp_all add: createClickAction_def Let_def)

lemma dispatch_emits_clicks:
  "list_all (\<lambda>a. act_type a = lit ''click'') (emitted (dispatch d st e))"
  by (cases e)
     (simp_all add: onClick_def onMouseDown_def onDoubleClick_def ignored_def created_type Let_def
        split: option.splits)

lemma emitted_by_clicks:
  "list_all (\<lambda>a. act_type a = lit ''click'') (emitted_by d st es)"
  by (induction es arbitrary: st) (simp_all add: dispatch_emits_clicks)

lemma first_click:
  assumes "isListening st"
    and "findInteractiveElement (dep_host d) (target ev) = Some tgt"
    and "\<not> (lastClickTarget st = Some (ref (node_of tgt)) \<and> now_check env - lastClickTime st < 500)"
  shows "map act_type (emitted (onClick d env st ev)) = [lit ''click'']"
    and "map clickCount (emitted (onClick d env st ev)) = [Some 1]"
    and "isListening (listener (onClick d env st ev))"
    and "lastClickTarget (listener (onClick d env st ev)) = Some (ref (node_of tgt))"
    and "lastClickTime (listener (onClick d env st ev)) = now_check env"
  using assms by (auto simp add: onClick_def created_type Let_def)

lemma second_click:
  assumes "isListening st"
    and "findInteractiveElement (dep_host d) (target ev) = Some tgt"
    and "lastClickTarget st = Some (ref (node_of tgt))" "now_check env - lastClickTime st < 500"
  shows "emitted (onClick d env st ev) = []"
    and "isListening (listener (onClick d env st ev))"
  using assms by (simp_all add: onClick_def ignored_def Let_def)

lemma double_click_event:
  assumes "isListening st"
    and "findInteractiveElement (dep_host d) (target ev) = Some tgt"
  shows "map act_type (emitted (onDoubleClick d env st ev)) = [lit ''click'']"
    and "map clickCount (emitted (onDoubleClick d env st ev)) = [Some 2]"
  using assms by (simp_all add: onDoubleClick_def created_type Let_def)

text \<open>
  C8 (as amended).  Let the listener be listening, let two clicks resolve to the same
  interactive element, the second less than 500 ms after the first, the first not itself
  following a click on that element by less than 500 ms, and let the double-click event
  resolve to an interactive element.  Then the first click emits one action of type
  \<open>click\<close> with click count 1, the second click emits nothing, and the double-click event
  emits exactly one action, of type \<open>click\<close> with click count 2.  No sequence of pointer
  events makes the handlers emit an action of another type than \<open>click\<close>.
\<close>

theorem C8_double_click_emits_click_with_count_two:
  assumes "isListening st"
    and "findInteractiveElement (dep_host d) (target ev1) = Some tgt1"
    and "findInteractiveElement (dep_host d) (target ev2) = Some tgt2"
    and "findInteractiveElement (dep_host d) (target ev3) = Some tgt3"
    and "ref (node_of tgt2) = ref (node_of tgt1)"
    and "now_check env2 - now_check env1 < 500"
    and "\<not> (lastClickTarget st = Some (ref (node_of tgt1)) \<and>
            now_check env1 - lastClickTime st < 500)"
  shows "map act_type (emitted_by d st [Click ev1 env1, Click ev2 env2, DblClick ev3 env3]) =
           [lit ''click'', lit ''click''] \<and>
         map clickCount (emitted_by d st [Click ev1 env1, Click ev2 env2, DblClick ev3 env3]) =
           [Some 1, Some 2] \<and>
         emitted (onClick d env2 (listener (onClick d env1 st ev1)) ev2) = [] \<and>
         list_all (\<lambda>a. act_type a = lit ''click'') (emitted_by d st' es)"
proof -
  let ?st1 = "listener (onClick d env1 st ev1)"
  let ?st2 = "listener (onClick d env2 ?st1 ev2)"
  note f = first_click [OF assms(1,2,7)]
  have l: "lastClickTarget ?st1 = Some (ref (node_of tgt2))" using f(4) assms(5) by simp
  have t: "now_check env2 - lastClickTime ?st1 < 500" using f(5) assms(6) by simp
  note s = second_click [OF f(3) assms(3) l t]
  note dc = double_click_event [OF s(2) assms(4), of env3]
  show ?thesis
    using f(1,2) s(1) dc emitted_by_clicks [of d st' es] by simp
qed

lemma find_login_button:
  "findInteractiveElement (dep_host sample_deps) (target (mouse_at login_button)) = Some login_button"
  by (simp add: mouse_at_def element_defs isInteractiveElement_def indicator_id_def lit_def Let_def)

lemma find_react_div:
  "findInteractiveElement (dep_host sample_deps) (target (mouse_at react_div)) = Some react_div"
  by (simp add: mouse_at_def element_defs isInteractiveElement_def indicator_id_def
      getAttribute_def hasAttribute_def truthy_opt_def lit_def Let_def)

lemma nav_login_button: "isNavigationClick login_button"
  by (simp add: isNavigationClick_def element_defs indicator_id_def lit_def Let_def)

lemma nav_react_div: "\<not> isNavigationClick react_div"
  by (simp add: isNavigationClick_def element_defs indicator_id_def lit_def Let_def)

lemma refs: "ref (node_of login_button) = 5" "ref (node_of react_div) = 6"
  by (simp_all add: element_defs)

theorem C8_double_click_witness:
  "map act_type (emitted_by sample_deps listening
        [Click (mouse_at login_button) (at_time 1000),
         Click (mouse_at login_button) (at_time 1200),
         DblClick (mouse_at login_button) (at_time 1200)]) = [lit ''click'', lit ''click''] \<and>
   map clickCount (emitted_by sample_deps listening
        [Click (mouse_at login_button) (at_time 1000),
         Click (mouse_at login_button) (at_time 1200),
         DblClick (mouse_at login_button) (at_time 1200)]) = [Some 1, Some 2]"
proof -
  have l: "isListening listening" by (simp add: listening_def)
  have t: "now_check (at_time 1200) - now_check (at_time 1000) < 500" by (simp add: at_time_def)
  have n: "\<not> (lastClickTarget listening = Some (ref (node_of login_button)) \<and>
            now_check (at_time 1000) - lastClickTime listening < 500)"
    by (simp add: listening_def)
  note th = C8_double_click_emits_click_with_count_two
         [OF l find_login_button find_login_button find_login_button refl t n]
  from th [THEN conjunct1] th [THEN conjunct2, THEN conjunct1] show ?thesis by (rule conjI)
qed

text \<open>
  A double-click on the submit button yields two actions, both of type \<open>click\<close>, none of
  type \<open>doubleclick\<close>.  On an element that does not navigate, the two \<open>mousedown\<close>
  events of the double-click each add a further \<open>click\<close> action.
\<close>

theorem C8_no_doubleclick_type_counterexample:
  "map (\<lambda>a. (act_type a, clickCount a))
     (emitted_by sample_deps listening
        [Click (mouse_at login_button) (at_time 1000),
         Click (mouse_at login_button) (at_time 1200),
         DblClick (mouse_at login_button) (at_time 1200)]) =
     [(lit ''click'', Some 1), (lit ''click'', Some 2)] \<and>
   filter (\<lambda>a. act_type a = lit ''doubleclick'')
     (emitted_by sample_deps listening
        [Click (mouse_at login_button) (at_time 1000),
         Click (mouse_at login_button) (at_time 1200),
         DblClick (mouse_at login_button) (at_time 1200)]) = [] \<and>
   map (\<lambda>a. (act_type a, clickCount a))
     (emitted_by sample_deps listening
        [MouseDown (mouse_at react_div) (at_time 1000),
         Click (mouse_at react_div) (at_time 1080),
         MouseDown (mouse_at react_div) (at_time 1200),
         Click (mouse_at react_div) (at_time 1280),
         DblClick (mouse_at react_div) (at_time 1280)]) =
     [(lit ''click'', Some 1), (lit ''click'', Some 1), (lit ''click'', Some 1),
      (lit ''click'', Some 2)]"
  apply (simp add: onClick_def onMouseDown_def onDoubleClick_def find_login_button find_react_div
      nav_login_button nav_react_div refs created_type ignored_def listening_def at_time_def Let_def)
  apply (simp add: lit_def)
  done

end
